theory Spec2Isabelle
  imports Complex_Main
begin

section \<open>Errors and Python helpers\<close>

text \<open>
  The tip geometry of \<^verbatim>\<open>protocol_engine/types\<close>: three floats that the tip handler
  only copies around, never computes with; they are modelled as reals. The fields
  \<^verbatim>\<open>length\<close>, \<^verbatim>\<open>diameter\<close> and \<^verbatim>\<open>volume\<close> carry a suffix, \<open>length\<close> being the
  list function of HOL.
\<close>

record TipGeometry =
  length_tip :: real
  diameter_tip :: real
  volume_tip :: real

text \<open>
  Every exception class that the modelled functions raise or catch. The string carried
  by an error is its message (without the interpolated object name) or, for
  \<open>KeyError\<close>, the missing key. \<open>CommandParameterLimitViolated\<close> carries its
  \<^verbatim>\<open>parameter_name\<close> and \<^verbatim>\<open>actual_value\<close>. \<open>ExternalError\<close> stands for an
  exception raised inside a collaborator whose code is outside these sources (motion,
  labware data).
\<close>

datatype error =
    CommandPreconditionViolated string
  | CommandParameterLimitViolated string string
  | KeyError string
  | IndexError
  | ValueError string
  | TypeError string
  | UnsupportedAPIError string
  | APIVersionError string
  | TipNotAttachedError
  | TipAttachedError
  | ProtocolEngineError string
  | PickUpTipTipNotAttachedError TipGeometry
  | ValidationError string
  | ExternalError string

text \<open>Python truthiness of an \<^verbatim>\<open>Optional[str]\<close>: \<^verbatim>\<open>None\<close> and \<^verbatim>\<open>""\<close> are falsy.\<close>

definition truthy :: "string option \<Rightarrow> bool" where
  "truthy x = (case x of None \<Rightarrow> False | Some s \<Rightarrow> s \<noteq> [])"

text \<open>\<^verbatim>\<open>str(x)\<close> of an \<^verbatim>\<open>Optional[str]\<close>.\<close>

definition str_opt :: "string option \<Rightarrow> string" where
  "str_opt x = (case x of None \<Rightarrow> ''None'' | Some s \<Rightarrow> s)"

text \<open>\<^verbatim>\<open>d[k]\<close> on a dict, kept as an association list: a missing key raises \<open>KeyError\<close>.\<close>

definition dict_get :: "(string \<times> 'v) list \<Rightarrow> string \<Rightarrow> error + 'v" where
  "dict_get d k = (case map_of d k of None \<Rightarrow> Inl (KeyError k) | Some v \<Rightarrow> Inr v)"

text \<open>\<^verbatim>\<open>d[k1][k2]\<close> on a dict of dicts; the outer lookup is evaluated first.\<close>

definition dict_get2 :: "(string \<times> (string \<times> 'v) list) list \<Rightarrow> string \<Rightarrow> string \<Rightarrow> error + 'v" where
  "dict_get2 d k1 k2 = (case dict_get d k1 of Inl e \<Rightarrow> Inl e | Inr inner \<Rightarrow> dict_get inner k2)"

section \<open>Nozzle layout resolver (\<^verbatim>\<open>execution/tip_handler.py\<close>)\<close>

definition PRIMARY_NOZZLE_TO_ENDING_NOZZLE_MAP :: "(string \<times> (string \<times> string) list) list" where
  "PRIMARY_NOZZLE_TO_ENDING_NOZZLE_MAP =
    [(''A1'', [(''COLUMN'', ''H1''), (''ROW'', ''A12'')]),
     (''H1'', [(''COLUMN'', ''A1''), (''ROW'', ''H12'')]),
     (''A12'', [(''COLUMN'', ''H12''), (''ROW'', ''A1'')]),
     (''H12'', [(''COLUMN'', ''A12''), (''ROW'', ''H1'')])]"

definition PRIMARY_NOZZLE_TO_BACK_LEFT_NOZZLE_MAP :: "(string \<times> (string \<times> string) list) list" where
  "PRIMARY_NOZZLE_TO_BACK_LEFT_NOZZLE_MAP =
    [(''A1'', [(''COLUMN'', ''A1''), (''ROW'', ''A1'')]),
     (''H1'', [(''COLUMN'', ''A1''), (''ROW'', ''H1'')]),
     (''A12'', [(''COLUMN'', ''A12''), (''ROW'', ''A1'')]),
     (''H12'', [(''COLUMN'', ''A12''), (''ROW'', ''H1'')])]"

text \<open>
  The module-level function \<^verbatim>\<open>_available_for_nozzle_layout\<close> (the leading underscore
  is dropped). The style is the string the source compares against, and the checks are in
  the source's order. The returned dict is an association list in insertion order. In a
  dict display the values are evaluated in order, so in the last branch the lookup in the
  ending-nozzle map comes first.
\<close>

definition available_for_nozzle_layout ::
  "int \<Rightarrow> string \<Rightarrow> string option \<Rightarrow> string option \<Rightarrow> string option
    \<Rightarrow> error + (string \<times> string) list" where
  "available_for_nozzle_layout channels style primary_nozzle front_right_nozzle back_left_nozzle =
    (if channels = 1 then
       Inl (CommandPreconditionViolated ''Cannot configure nozzle layout with a 1 channel pipette.'')
     else if style = ''ALL'' then Inr []
     else if style = ''ROW'' \<and> channels = 8 then
       Inl (CommandParameterLimitViolated ''RowNozzleLayout'' (str_opt primary_nozzle))
     else if style = ''PARTIAL_COLUM'' \<and> channels = 96 then
       Inl (CommandParameterLimitViolated ''PartialColumnNozzleLayout'' (str_opt primary_nozzle))
     else if \<not> truthy primary_nozzle then Inr [(''primary_nozzle'', ''A1'')]
     else if style = ''SINGLE'' then Inr [(''primary_nozzle'', the primary_nozzle)]
     else if style = ''QUADRANT'' \<and> truthy front_right_nozzle \<and> \<not> truthy back_left_nozzle then
       Inr [(''primary_nozzle'', the primary_nozzle),
            (''front_right_nozzle'', the front_right_nozzle),
            (''back_left_nozzle'', the primary_nozzle)]
     else if style = ''QUADRANT'' \<and> truthy back_left_nozzle \<and> \<not> truthy front_right_nozzle then
       Inr [(''primary_nozzle'', the primary_nozzle),
            (''front_right_nozzle'', the primary_nozzle),
            (''back_left_nozzle'', the back_left_nozzle)]
     else if \<not> truthy front_right_nozzle \<and> truthy back_left_nozzle then
       (case dict_get2 PRIMARY_NOZZLE_TO_ENDING_NOZZLE_MAP (the primary_nozzle) style of
          Inl e \<Rightarrow> Inl e
        | Inr ending \<Rightarrow>
            Inr [(''primary_nozzle'', the primary_nozzle),
                 (''front_right_nozzle'', ending),
                 (''back_left_nozzle'', the back_left_nozzle)])
     else if truthy front_right_nozzle \<and> \<not> truthy back_left_nozzle then
       (case dict_get2 PRIMARY_NOZZLE_TO_BACK_LEFT_NOZZLE_MAP (the primary_nozzle) style of
          Inl e \<Rightarrow> Inl e
        | Inr bl \<Rightarrow>
            Inr [(''primary_nozzle'', the primary_nozzle),
                 (''front_right_nozzle'', the front_right_nozzle),
                 (''back_left_nozzle'', bl)])
     else if truthy front_right_nozzle \<and> truthy back_left_nozzle then
       Inr [(''primary_nozzle'', the primary_nozzle),
            (''front_right_nozzle'', the front_right_nozzle),
            (''back_left_nozzle'', the back_left_nozzle)]
     else
       (case dict_get2 PRIMARY_NOZZLE_TO_ENDING_NOZZLE_MAP (the primary_nozzle) style of
          Inl e \<Rightarrow> Inl e
        | Inr ending \<Rightarrow>
            (case dict_get2 PRIMARY_NOZZLE_TO_BACK_LEFT_NOZZLE_MAP (the primary_nozzle) style of
               Inl e \<Rightarrow> Inl e
             | Inr bl \<Rightarrow>
                 Inr [(''primary_nozzle'', the primary_nozzle),
                      (''front_right_nozzle'', ending),
                      (''back_left_nozzle'', bl)])))"

section \<open>Tip presence configuration (\<^verbatim>\<open>execution/tip_handler.py\<close>)\<close>

datatype NozzleConfigurationType = COLUMN | ROW | SINGLE | FULL | SUBRECT

text \<open>The properties of a nozzle map that the tip handler reads.\<close>

record NozzleMap =
  configuration :: NozzleConfigurationType
  starting_nozzle :: string
  back_left :: string
  front_right :: string
  tip_count :: int

datatype InstrumentProbeType = PRIMARY | SECONDARY

datatype TipPresenceStatus = PRESENT | ABSENT | UNKNOWN

datatype Mount = LEFT | RIGHT | EXTENSION

text \<open>
  \<^verbatim>\<open>int(s)\<close> on a string of ASCII decimal digits, which is what follows the row letter
  in every nozzle name; any other string is a \<open>ValueError\<close> here (Python's \<^verbatim>\<open>int\<close> also
  accepts a sign, surrounding blanks and underscores, which no nozzle name has).
\<close>

definition is_digit :: "char \<Rightarrow> bool" where
  "is_digit c = (48 \<le> (of_char c :: nat) \<and> (of_char c :: nat) \<le> 57)"

definition py_int :: "string \<Rightarrow> error + int" where
  "py_int s =
    (if s \<noteq> [] \<and> list_all is_digit s
     then Inr (foldl (\<lambda>a c. 10 * a + (int (of_char c) - 48)) 0 s)
     else Inl (ValueError ''invalid literal for int() with base 10''))"

text \<open>\<^verbatim>\<open>tip_on_left_side_96\<close> and \<^verbatim>\<open>tip_on_right_side_96\<close>; \<^verbatim>\<open>s[1:]\<close> is \<open>drop 1 s\<close>.\<close>

definition tip_on_left_side_96 :: "string \<Rightarrow> error + bool" where
  "tip_on_left_side_96 back_left_nozzle =
    (case py_int (drop 1 back_left_nozzle) of
       Inl e \<Rightarrow> Inl e
     | Inr left_most_column \<Rightarrow> Inr (left_most_column = 1))"

definition tip_on_right_side_96 :: "string \<Rightarrow> error + bool" where
  "tip_on_right_side_96 front_right_nozzle =
    (case py_int (drop 1 front_right_nozzle) of
       Inl e \<Rightarrow> Inl e
     | Inr right_most_column \<Rightarrow> Inr (right_most_column = 12))"

text \<open>
  The read accessors of the engine state that the modelled code calls
  (\<^verbatim>\<open>state_view.pipettes\<close>, \<^verbatim>\<open>.geometry\<close>, \<^verbatim>\<open>.labware\<close>, \<^verbatim>\<open>.tips\<close>, \<^verbatim>\<open>.config\<close>) and
  the labware data provider's calibration lookup. Their implementations are outside
  these sources, so each is a field holding its answer; a lookup that can fail for a
  missing definition returns a sum. The first argument of the per-pipette accessors is
  the pipette id, labware is named by its id. A well location is its origin name and
  its offset.
\<close>

record StateView =
  get_attached_tip :: "string \<Rightarrow> TipGeometry option"
  convert_pick_up_tip_well_location :: "string \<times> real \<times> real \<times> real \<Rightarrow> string \<times> real \<times> real \<times> real"
  get_channels :: "string \<Rightarrow> int"
  get_nozzle_configuration :: "string \<Rightarrow> NozzleMap"
  get_mount :: "string \<Rightarrow> Mount"
  get_serial_number :: "string \<Rightarrow> string"
  get_nominal_tip_geometry :: "string \<Rightarrow> string \<Rightarrow> string \<Rightarrow> error + TipGeometry"
  get_definition :: "string \<Rightarrow> error + string"
  get_calibrated_tip_length :: "string \<Rightarrow> string \<Rightarrow> real \<Rightarrow> real"
  compute_tips_to_mark_as_used :: "string \<Rightarrow> string \<Rightarrow> NozzleMap \<Rightarrow> string list"
  validate_tip_state :: "string \<Rightarrow> bool \<Rightarrow> error option"
  use_virtual_pipettes :: bool

text \<open>
  \<^verbatim>\<open>HardwareTipHandler.get_tip_presence_config\<close>: whether tip presence sensing is
  supported for the pipette's current nozzle map, and which single sensor to follow.
\<close>

definition unsupported_layout_types_96 :: "NozzleConfigurationType list" where
  "unsupported_layout_types_96 = [SINGLE]"

definition supported_partial_nozzle_minimum :: int where
  "supported_partial_nozzle_minimum = 4"

definition get_tip_presence_config ::
  "StateView \<Rightarrow> string \<Rightarrow> error + (bool \<times> InstrumentProbeType option)" where
  "get_tip_presence_config state_view pipette_id =
    (let nozzle_configuration = get_nozzle_configuration state_view pipette_id;
         channels = get_channels state_view pipette_id
     in if channels = 1 then Inr (True, None)
        else if channels = 8 then
          Inr (tip_count nozzle_configuration \<ge> supported_partial_nozzle_minimum, None)
        else if channels = 96 then
          (let tip_presence_supported =
                 (configuration nozzle_configuration \<notin> set unsupported_layout_types_96
                  \<and> tip_count nozzle_configuration \<ge> supported_partial_nozzle_minimum)
           in if configuration nozzle_configuration \<noteq> FULL \<and> tip_presence_supported then
                (case tip_on_left_side_96 (back_left nozzle_configuration) of
                   Inl e \<Rightarrow> Inl e
                 | Inr use_left \<Rightarrow>
                     (case tip_on_right_side_96 (front_right nozzle_configuration) of
                        Inl e \<Rightarrow> Inl e
                      | Inr use_right \<Rightarrow>
                          if \<not> (use_left \<and> use_right) then
                            (if use_left then Inr (tip_presence_supported, Some PRIMARY)
                             else Inr (tip_presence_supported, Some SECONDARY))
                          else Inr (tip_presence_supported, None)))
              else Inr (tip_presence_supported, None))
        else Inl (ValueError ''Unknown pipette type.''))"

text \<open>
  A nozzle name as the protocol writes it: the row letter followed by the column number
  in decimal (\<^verbatim>\<open>A1\<close> to \<^verbatim>\<open>H12\<close> on a 96-channel pipette).
\<close>

definition digit_char :: "nat \<Rightarrow> char" where
  "digit_char d = char_of (48 + d)"

definition nozzle_name :: "char \<Rightarrow> nat \<Rightarrow> string" where
  "nozzle_name row col =
    row # (if col < 10 then [digit_char col] else [digit_char (col div 10), digit_char (col mod 10)])"

section \<open>The hardware gateway\<close>

text \<open>
  The hardware controller is outside these sources. What a function does to it is kept
  as the list of calls the function issues, in order, each with its arguments; what it
  answers is held by a record: whether it is a Flex (\<^verbatim>\<open>ensure_ot3_hardware\<close> returns
  it, otherwise \<^verbatim>\<open>HardwareNotSupportedError\<close> is raised), what the tip sensors read for
  a mount and a sensor selection, and which calls raise.
\<close>

datatype hw_call =
    Tip_pickup_moves Mount
  | Tip_drop_moves Mount bool string "bool option"
  | Verify_tip_presence Mount TipPresenceStatus "InstrumentProbeType option"
  | Get_tip_presence_status Mount
  | Cache_tip Mount real
  | Set_current_tiprack_diameter Mount real
  | Set_working_volume Mount real
  | Remove_tip Mount
  | Prepare_for_aspirate Mount

record HardwareControlAPI =
  is_ot3 :: bool
  sensed_tip_presence :: "Mount \<Rightarrow> InstrumentProbeType option \<Rightarrow> TipPresenceStatus"
  raises :: "hw_call \<Rightarrow> error option"

text \<open>
  A computation that talks to the hardware yields the calls it issued and either the
  exception that ended it or its value. A call that raises has been issued.
\<close>

type_synonym 'a hw_result = "hw_call list \<times> (error + 'a)"

definition hw_do :: "HardwareControlAPI \<Rightarrow> hw_call \<Rightarrow> unit hw_result" where
  "hw_do hw c = ([c], case raises hw c of Some e \<Rightarrow> Inl e | None \<Rightarrow> Inr ())"

definition pure_step :: "error + 'a \<Rightarrow> 'a hw_result" where
  "pure_step r = ([], r)"

definition and_then :: "'a hw_result \<Rightarrow> ('a \<Rightarrow> 'b hw_result) \<Rightarrow> 'b hw_result" where
  "and_then m f =
    (case m of
       (t, Inl e) \<Rightarrow> (t, Inl e)
     | (t, Inr v) \<Rightarrow> (case f v of (t', r) \<Rightarrow> (t @ t', r)))"

section \<open>The hardware tip handler (\<^verbatim>\<open>execution/tip_handler.py\<close>)\<close>

text \<open>\<^verbatim>\<open>_get_hw_mount\<close>; the mount type converts to the hardware mount of the same name.\<close>

definition get_hw_mount :: "StateView \<Rightarrow> string \<Rightarrow> Mount" where
  "get_hw_mount state_view pipette_id = get_mount state_view pipette_id"

text \<open>
  Modelled from the spec: the hardware gateway's own \<^verbatim>\<open>verify_tip_presence\<close> is not
  among the sources. By section 4.3 of the specification the check fails when the sensed
  status is not the expected one; the failure is the exception \<^verbatim>\<open>FailedTipStateCheck\<close>
  that the tip handler catches.
\<close>

definition failed_tip_state_check ::
  "HardwareControlAPI \<Rightarrow> Mount \<Rightarrow> TipPresenceStatus \<Rightarrow> InstrumentProbeType option \<Rightarrow> bool" where
  "failed_tip_state_check hw mount expected follow_singular_sensor =
    (sensed_tip_presence hw mount follow_singular_sensor \<noteq> expected)"

text \<open>
  \<^verbatim>\<open>HardwareTipHandler.verify_tip_presence\<close>. On a robot that is not a Flex the
  \<^verbatim>\<open>HardwareNotSupportedError\<close> is swallowed and nothing is sensed.
\<close>

definition verify_tip_presence ::
  "HardwareControlAPI \<Rightarrow> StateView \<Rightarrow> string \<Rightarrow> TipPresenceStatus
    \<Rightarrow> InstrumentProbeType option \<Rightarrow> unit hw_result" where
  "verify_tip_presence hw state_view pipette_id expected follow_singular_sensor =
    (if \<not> is_ot3 hw then ([], Inr ())
     else
       (let hw_mount = get_hw_mount state_view pipette_id;
            issued = [Verify_tip_presence hw_mount expected follow_singular_sensor]
        in if failed_tip_state_check hw hw_mount expected follow_singular_sensor then
             (if expected = ABSENT then (issued, Inl TipAttachedError)
              else if expected = PRESENT then (issued, Inl TipNotAttachedError)
              else (issued, Inl (ProtocolEngineError ''Unknown tip status in tip status check'')))
           else (issued, Inr ())))"

text \<open>\<^verbatim>\<open>HardwareTipHandler.get_tip_presence\<close>.\<close>

definition get_tip_presence ::
  "HardwareControlAPI \<Rightarrow> StateView \<Rightarrow> string \<Rightarrow> TipPresenceStatus hw_result" where
  "get_tip_presence hw state_view pipette_id =
    (if \<not> is_ot3 hw then ([], Inr UNKNOWN)
     else
       (let hw_mount = get_hw_mount state_view pipette_id
        in ([Get_tip_presence_status hw_mount], Inr (sensed_tip_presence hw hw_mount None))))"

text \<open>\<^verbatim>\<open>HardwareTipHandler.cache_tip\<close> and \<^verbatim>\<open>HardwareTipHandler.remove_tip\<close>.\<close>

definition cache_tip :: "HardwareControlAPI \<Rightarrow> StateView \<Rightarrow> string \<Rightarrow> TipGeometry \<Rightarrow> unit hw_result" where
  "cache_tip hw state_view pipette_id tip =
    (let hw_mount = get_hw_mount state_view pipette_id
     in and_then (hw_do hw (Cache_tip hw_mount (length_tip tip))) (\<lambda>_.
        and_then (hw_do hw (Set_current_tiprack_diameter hw_mount (diameter_tip tip))) (\<lambda>_.
        hw_do hw (Set_working_volume hw_mount (volume_tip tip)))))"

definition remove_tip :: "HardwareControlAPI \<Rightarrow> StateView \<Rightarrow> string \<Rightarrow> unit hw_result" where
  "remove_tip hw state_view pipette_id =
    (let hw_mount = get_hw_mount state_view pipette_id
     in and_then (hw_do hw (Remove_tip hw_mount)) (\<lambda>_.
        hw_do hw (Set_current_tiprack_diameter hw_mount 0)))"

text \<open>
  \<^verbatim>\<open>HardwareTipHandler.pick_up_tip\<close>. The \<^verbatim>\<open>try\<close> around the verification turns a
  \<^verbatim>\<open>TipNotAttachedError\<close> into a \<^verbatim>\<open>PickUpTipTipNotAttachedError\<close> that carries the tip
  geometry computed above it; any other exception passes through.
\<close>

definition HardwareTipHandler_pick_up_tip ::
  "HardwareControlAPI \<Rightarrow> StateView \<Rightarrow> string \<Rightarrow> string \<Rightarrow> string \<Rightarrow> bool
    \<Rightarrow> TipGeometry hw_result" where
  "HardwareTipHandler_pick_up_tip hw state_view pipette_id labware_id well_name
      do_not_ignore_tip_presence =
    (let hw_mount = get_hw_mount state_view pipette_id
     in and_then (pure_step (get_nominal_tip_geometry state_view pipette_id labware_id well_name))
          (\<lambda>nominal_tip_geometry.
        and_then (pure_step (get_definition state_view labware_id)) (\<lambda>labware_definition.
        (let actual_tip_length =
               get_calibrated_tip_length state_view (get_serial_number state_view pipette_id)
                 labware_definition (length_tip nominal_tip_geometry);
             tip_geometry =
               \<lparr>length_tip = actual_tip_length,
                diameter_tip = diameter_tip nominal_tip_geometry,
                volume_tip = volume_tip nominal_tip_geometry\<rparr>
         in and_then (hw_do hw (Tip_pickup_moves hw_mount)) (\<lambda>_.
            and_then (pure_step (get_tip_presence_config state_view pipette_id))
              (\<lambda>(tip_presence_supported, follow_singular_sensor).
            and_then
              (if do_not_ignore_tip_presence \<and> tip_presence_supported then
                 (case verify_tip_presence hw state_view pipette_id PRESENT
                         follow_singular_sensor of
                    (t, Inl TipNotAttachedError) \<Rightarrow>
                      (t, Inl (PickUpTipTipNotAttachedError tip_geometry))
                  | r \<Rightarrow> r)
               else ([], Inr ()))
              (\<lambda>_.
            and_then (cache_tip hw state_view pipette_id tip_geometry) (\<lambda>_.
            and_then (hw_do hw (Prepare_for_aspirate hw_mount)) (\<lambda>_.
            ([], Inr tip_geometry))))))))))"

text \<open>
  \<^verbatim>\<open>HardwareTipHandler.drop_tip\<close>. The \<^verbatim>\<open>home_after\<close> keyword is passed on only when
  it is not \<^verbatim>\<open>None\<close>; the scrape type is named by its enum member.
\<close>

definition HardwareTipHandler_drop_tip ::
  "HardwareControlAPI \<Rightarrow> StateView \<Rightarrow> string \<Rightarrow> bool option \<Rightarrow> bool \<Rightarrow> bool \<Rightarrow> string
    \<Rightarrow> unit hw_result" where
  "HardwareTipHandler_drop_tip hw state_view pipette_id home_after do_not_ignore_tip_presence
      ignore_plunger scrape_type =
    (let hw_mount = get_hw_mount state_view pipette_id
     in and_then (hw_do hw (Tip_drop_moves hw_mount ignore_plunger scrape_type home_after)) (\<lambda>_.
        and_then
          (if do_not_ignore_tip_presence then
             verify_tip_presence hw state_view pipette_id ABSENT None
           else ([], Inr ()))
          (\<lambda>_.
        remove_tip hw state_view pipette_id)))"

text \<open>The two \<^verbatim>\<open>available_for_nozzle_layout\<close> methods, of the same text in the source.\<close>

definition HardwareTipHandler_available_for_nozzle_layout ::
  "StateView \<Rightarrow> string \<Rightarrow> string \<Rightarrow> string option \<Rightarrow> string option \<Rightarrow> string option
    \<Rightarrow> error + (string \<times> string) list" where
  "HardwareTipHandler_available_for_nozzle_layout state_view pipette_id style primary_nozzle
      front_right_nozzle back_left_nozzle =
    (if get_attached_tip state_view pipette_id \<noteq> None then
       Inl (CommandPreconditionViolated
              ''Cannot configure nozzle layout while it has tips attached.'')
     else
       (let channels = get_channels state_view pipette_id
        in available_for_nozzle_layout channels style primary_nozzle front_right_nozzle
             back_left_nozzle))"

section \<open>The virtual tip handler\<close>

definition VirtualTipHandler_pick_up_tip ::
  "StateView \<Rightarrow> string \<Rightarrow> string \<Rightarrow> string \<Rightarrow> bool \<Rightarrow> TipGeometry hw_result" where
  "VirtualTipHandler_pick_up_tip state_view pipette_id labware_id well_name
      do_not_ignore_tip_presence =
    and_then (pure_step (get_nominal_tip_geometry state_view pipette_id labware_id well_name))
      (\<lambda>nominal_tip_geometry.
    (case validate_tip_state state_view pipette_id False of
       Some e \<Rightarrow> ([], Inl e)
     | None \<Rightarrow> ([], Inr nominal_tip_geometry)))"

definition VirtualTipHandler_available_for_nozzle_layout ::
  "StateView \<Rightarrow> string \<Rightarrow> string \<Rightarrow> string option \<Rightarrow> string option \<Rightarrow> string option
    \<Rightarrow> error + (string \<times> string) list" where
  "VirtualTipHandler_available_for_nozzle_layout state_view pipette_id style primary_nozzle
      front_right_nozzle back_left_nozzle =
    (if get_attached_tip state_view pipette_id \<noteq> None then
       Inl (CommandPreconditionViolated
              ''Cannot configure nozzle layout while it has tips attached.'')
     else
       (let channels = get_channels state_view pipette_id
        in available_for_nozzle_layout channels style primary_nozzle front_right_nozzle
             back_left_nozzle))"

definition VirtualTipHandler_drop_tip ::
  "StateView \<Rightarrow> string \<Rightarrow> bool option \<Rightarrow> bool \<Rightarrow> bool \<Rightarrow> string \<Rightarrow> unit hw_result" where
  "VirtualTipHandler_drop_tip state_view pipette_id home_after do_not_ignore_tip_presence
      ignore_plunger scrape_type =
    (case validate_tip_state state_view pipette_id True of
       Some e \<Rightarrow> ([], Inl e)
     | None \<Rightarrow> ([], Inr ()))"

text \<open>\<^verbatim>\<open>create_tip_handler\<close> and the dispatch on the handler it returns.\<close>

datatype TipHandler = HardwareTipHandler HardwareControlAPI | VirtualTipHandler

definition create_tip_handler :: "StateView \<Rightarrow> HardwareControlAPI \<Rightarrow> TipHandler" where
  "create_tip_handler state_view hardware_api =
    (if use_virtual_pipettes state_view = False then HardwareTipHandler hardware_api
     else VirtualTipHandler)"

definition TipHandler_pick_up_tip ::
  "TipHandler \<Rightarrow> StateView \<Rightarrow> string \<Rightarrow> string \<Rightarrow> string \<Rightarrow> bool \<Rightarrow> TipGeometry hw_result" where
  "TipHandler_pick_up_tip tip_handler state_view pipette_id labware_id well_name
      do_not_ignore_tip_presence =
    (case tip_handler of
       HardwareTipHandler hw \<Rightarrow>
         HardwareTipHandler_pick_up_tip hw state_view pipette_id labware_id well_name
           do_not_ignore_tip_presence
     | VirtualTipHandler \<Rightarrow>
         VirtualTipHandler_pick_up_tip state_view pipette_id labware_id well_name
           do_not_ignore_tip_presence)"

section \<open>State updates\<close>

text \<open>
  Modelled from the spec: \<^verbatim>\<open>state/update_types.py\<close> is not among the sources. By
  sections 3 and 4.5 of the specification a state update is a sparse set of field changes
  keyed by pipette id, and merging two of them is additive. Each field below is
  \<open>None\<close> for "no change"; each builder method that the command calls sets the one
  field it is named after and returns the update, and \<^verbatim>\<open>StateUpdate.reduce\<close> lets the
  later update win field by field.
\<close>

datatype FluidUpdate = PipetteUnknownFluid string | PipetteEmptyFluid string bool

record StateUpdate =
  pipette_location :: "(string \<times> string \<times> string \<times> real \<times> real \<times> real) option"
  pipette_tip_state :: "(string \<times> TipGeometry option) option"
  pipette_aspirated_fluid :: "FluidUpdate option"
  tips_used :: "(string \<times> string list) option"
  ready_to_aspirate :: "(string \<times> bool) option"

definition StateUpdate_new :: StateUpdate where
  "StateUpdate_new =
    \<lparr>pipette_location = None, pipette_tip_state = None, pipette_aspirated_fluid = None,
     tips_used = None, ready_to_aspirate = None\<rparr>"

definition later :: "'a option \<Rightarrow> 'a option \<Rightarrow> 'a option" where
  "later a b = (case b of None \<Rightarrow> a | Some v \<Rightarrow> Some v)"

definition reduce :: "StateUpdate \<Rightarrow> StateUpdate \<Rightarrow> StateUpdate" where
  "reduce a b =
    \<lparr>pipette_location = later (pipette_location a) (pipette_location b),
     pipette_tip_state = later (pipette_tip_state a) (pipette_tip_state b),
     pipette_aspirated_fluid = later (pipette_aspirated_fluid a) (pipette_aspirated_fluid b),
     tips_used = later (tips_used a) (tips_used b),
     ready_to_aspirate = later (ready_to_aspirate a) (ready_to_aspirate b)\<rparr>"

definition update_pipette_tip_state :: "StateUpdate \<Rightarrow> string \<Rightarrow> TipGeometry option \<Rightarrow> StateUpdate" where
  "update_pipette_tip_state u pipette_id tip_geometry =
    u\<lparr>pipette_tip_state := Some (pipette_id, tip_geometry)\<rparr>"

definition set_fluid_empty :: "StateUpdate \<Rightarrow> string \<Rightarrow> bool \<Rightarrow> StateUpdate" where
  "set_fluid_empty u pipette_id clean_tip =
    u\<lparr>pipette_aspirated_fluid := Some (PipetteEmptyFluid pipette_id clean_tip)\<rparr>"

definition set_fluid_unknown :: "StateUpdate \<Rightarrow> string \<Rightarrow> StateUpdate" where
  "set_fluid_unknown u pipette_id =
    u\<lparr>pipette_aspirated_fluid := Some (PipetteUnknownFluid pipette_id)\<rparr>"

definition mark_tips_as_used :: "StateUpdate \<Rightarrow> string \<Rightarrow> string list \<Rightarrow> StateUpdate" where
  "mark_tips_as_used u labware_id well_names = u\<lparr>tips_used := Some (labware_id, well_names)\<rparr>"

definition set_pipette_ready_to_aspirate :: "StateUpdate \<Rightarrow> string \<Rightarrow> bool \<Rightarrow> StateUpdate" where
  "set_pipette_ready_to_aspirate u pipette_id ready =
    u\<lparr>ready_to_aspirate := Some (pipette_id, ready)\<rparr>"

section \<open>The pick-up-tip command (\<^verbatim>\<open>commands/pick_up_tip.py\<close>)\<close>

record PickUpTipParams =
  pipetteId :: string
  labwareId :: string
  wellName :: string
  wellLocation :: "string \<times> real \<times> real \<times> real"

record PickUpTipResult =
  position :: "real \<times> real \<times> real"
  tipVolume :: real
  tipLength :: real
  tipDiameter :: real

datatype PublicError = TipPhysicallyMissingError | StallOrCollisionError

text \<open>
  What a command's \<^verbatim>\<open>execute\<close> returns: \<^verbatim>\<open>SuccessData\<close> with the public result and
  the state update, or \<^verbatim>\<open>DefinedErrorData\<close> with the public error, the state update
  and the state update to apply if the error is a false positive. The id, the timestamp
  and the wrapped errors of the public error are left out.
\<close>

datatype 'r ExecuteReturn =
    SuccessData 'r StateUpdate
  | DefinedErrorData PublicError StateUpdate StateUpdate

text \<open>
  The movement handler behind \<^verbatim>\<open>move_to_well\<close> (\<^verbatim>\<open>movement_common.py\<close>, outside
  these sources): for a pipette, a labware, a well and a well location it yields the
  position reached with a state update, or a defined stall-or-collision error.
\<close>

record MovementHandler =
  move_to_well ::
    "string \<Rightarrow> string \<Rightarrow> string \<Rightarrow> string \<times> real \<times> real \<times> real
      \<Rightarrow> (real \<times> real \<times> real) ExecuteReturn"

text \<open>
  \<^verbatim>\<open>PickUpTipImplementation.execute\<close>. The tip handler is called with its default
  \<^verbatim>\<open>do_not_ignore_tip_presence=True\<close>. Only \<^verbatim>\<open>PickUpTipTipNotAttachedError\<close> is
  caught; every other exception leaves the command. The three tip fields of
  \<^verbatim>\<open>PickUpTipResult\<close> are declared \<^verbatim>\<open>ge=0\<close>, so building the result from a negative
  value raises a validation error.
\<close>

definition execute ::
  "StateView \<Rightarrow> TipHandler \<Rightarrow> MovementHandler \<Rightarrow> PickUpTipParams
    \<Rightarrow> PickUpTipResult ExecuteReturn hw_result" where
  "execute state_view tip_handler movement params =
    (let pipette_id = pipetteId params;
         labware_id = labwareId params;
         well_name = wellName params;
         tips_to_mark_as_used =
           compute_tips_to_mark_as_used state_view labware_id well_name
             (get_nozzle_configuration state_view pipette_id);
         well_location = convert_pick_up_tip_well_location state_view (wellLocation params)
     in case move_to_well movement pipette_id labware_id well_name well_location of
          DefinedErrorData public_error u u_fp \<Rightarrow>
            ([], Inr (DefinedErrorData public_error u u_fp))
        | SuccessData move_position move_state_update \<Rightarrow>
            (case TipHandler_pick_up_tip tip_handler state_view pipette_id labware_id well_name
                    True of
               (t, Inl (PickUpTipTipNotAttachedError e_tip_geometry)) \<Rightarrow>
                 (let state_update_if_false_positive =
                        mark_tips_as_used
                          (set_fluid_empty
                             (update_pipette_tip_state
                                (reduce StateUpdate_new move_state_update)
                                pipette_id (Some e_tip_geometry))
                             pipette_id True)
                          labware_id tips_to_mark_as_used;
                      state_update =
                        set_fluid_unknown
                          (mark_tips_as_used
                             (reduce StateUpdate_new move_state_update)
                             labware_id tips_to_mark_as_used)
                          pipette_id
                  in (t, Inr (DefinedErrorData TipPhysicallyMissingError state_update
                                state_update_if_false_positive)))
             | (t, Inl e) \<Rightarrow> (t, Inl e)
             | (t, Inr tip_geometry) \<Rightarrow>
                 (let state_update =
                        set_pipette_ready_to_aspirate
                          (set_fluid_empty
                             (mark_tips_as_used
                                (update_pipette_tip_state move_state_update pipette_id
                                   (Some tip_geometry))
                                labware_id tips_to_mark_as_used)
                             pipette_id True)
                          pipette_id True
                  in if volume_tip tip_geometry < 0 \<or> length_tip tip_geometry < 0
                        \<or> diameter_tip tip_geometry < 0 then
                       (t, Inl (ValidationError ''PickUpTipResult''))
                     else
                       (t, Inr (SuccessData
                                  \<lparr>position = move_position,
                                   tipVolume = volume_tip tip_geometry,
                                   tipLength = length_tip tip_geometry,
                                   tipDiameter = diameter_tip tip_geometry\<rparr>
                                  state_update)))))"

section \<open>The instrument context (\<^verbatim>\<open>protocol_api/instrument_context.py\<close>)\<close>

text \<open>An API version is a major and a minor number, ordered lexicographically.\<close>

type_synonym APIVersion = "nat \<times> nat"

definition version_less :: "APIVersion \<Rightarrow> APIVersion \<Rightarrow> bool" where
  "version_less a b = (fst a < fst b \<or> (fst a = fst b \<and> snd a < snd b))"

definition PREP_AFTER_ADDED_IN :: APIVersion where
  "PREP_AFTER_ADDED_IN = (2, 13)"

definition PRESSES_INCREMENT_REMOVED_IN :: APIVersion where
  "PRESSES_INCREMENT_REMOVED_IN = (2, 14)"

definition PARTIAL_NOZZLE_CONFIGURATION_ADDED_IN :: APIVersion where
  "PARTIAL_NOZZLE_CONFIGURATION_ADDED_IN = (2, 16)"

definition PARTIAL_NOZZLE_CONFIGURATION_AUTOMATIC_TIP_TRACKING_IN :: APIVersion where
  "PARTIAL_NOZZLE_CONFIGURATION_AUTOMATIC_TIP_TRACKING_IN = (2, 18)"

definition PARTIAL_NOZZLE_CONFIGURATION_SINGLE_ROW_PARTIAL_COLUMN_ADDED_IN :: APIVersion where
  "PARTIAL_NOZZLE_CONFIGURATION_SINGLE_ROW_PARTIAL_COLUMN_ADDED_IN = (2, 20)"

definition ALLOWED_PRIMARY_NOZZLES :: "string list" where
  "ALLOWED_PRIMARY_NOZZLES = [''A1'', ''H1'', ''A12'', ''H12'']"

datatype NozzleLayout =
    Layout_COLUMN | Layout_PARTIAL_COLUMN | Layout_SINGLE | Layout_ROW | Layout_QUADRANT
  | Layout_ALL

record Well =
  parent :: string
  well_name :: string

text \<open>
  A location holds its point and what \<^verbatim>\<open>location.labware.get_parent_labware_and_well()\<close>
  answers for it: the tip rack, if any, and the well, if any.
\<close>

record Location =
  point :: "real \<times> real \<times> real"
  parent_labware_and_well :: "string option \<times> Well option"

text \<open>
  The \<^verbatim>\<open>location\<close> argument of \<^verbatim>\<open>pick_up_tip\<close> by its run-time class; \<open>Arg_Other\<close> is any
  object that is none of the three.
\<close>

datatype LocationArg = Arg_Well Well | Arg_Labware string | Arg_Location Location | Arg_Other

text \<open>
  The instrument context with what its core and the labware module answer: the channel
  counts, the nozzle map, whether tip tracking is available, the next available tip for a
  starting tip, a list of tip racks, a channel count and a nozzle map, and the top of a
  well.
\<close>

record InstrumentContext =
  api_version :: APIVersion
  channels :: int
  active_channels :: int
  get_nozzle_map :: NozzleMap
  is_tip_tracking_available :: bool
  starting_tip :: "Well option"
  tip_racks :: "string list"
  next_available_tip ::
    "Well option \<Rightarrow> string list \<Rightarrow> int \<Rightarrow> NozzleMap option \<Rightarrow> error + (string \<times> Well)"
  top :: "Well \<Rightarrow> Location"

text \<open>What \<^verbatim>\<open>pick_up_tip\<close> hands to \<^verbatim>\<open>self._core.pick_up_tip\<close>, with the tip rack chosen.\<close>

record CorePickUpTip =
  tip_rack :: string
  location :: Location
  well_core :: Well
  presses :: "int option"
  increment :: "real option"
  prep_after :: bool

text \<open>
  \<^verbatim>\<open>InstrumentContext.pick_up_tip\<close> up to its call of the core. The decorator
  \<^verbatim>\<open>requires_version(2, 0)\<close> refuses an older API version first; \<^verbatim>\<open>validate_tiprack\<close>
  only logs.
\<close>

definition pick_up_tip ::
  "InstrumentContext \<Rightarrow> LocationArg option \<Rightarrow> int option \<Rightarrow> real option \<Rightarrow> bool option
    \<Rightarrow> error + CorePickUpTip" where
  "pick_up_tip self location_arg presses_arg increment_arg prep_after_arg =
    (if version_less (api_version self) (2, 0) then Inl (APIVersionError ''pick_up_tip'')
     else if presses_arg \<noteq> None \<and> \<not> version_less (api_version self) PRESSES_INCREMENT_REMOVED_IN then
       Inl (UnsupportedAPIError ''presses'')
     else if increment_arg \<noteq> None
             \<and> \<not> version_less (api_version self) PRESSES_INCREMENT_REMOVED_IN then
       Inl (UnsupportedAPIError ''increment'')
     else if prep_after_arg \<noteq> None \<and> version_less (api_version self) PREP_AFTER_ADDED_IN then
       Inl (APIVersionError ''prep_after'')
     else
       (let active =
              (if \<not> version_less (api_version self) PARTIAL_NOZZLE_CONFIGURATION_ADDED_IN
               then active_channels self else channels self);
            nozzle_map =
              (if \<not> version_less (api_version self)
                      PARTIAL_NOZZLE_CONFIGURATION_AUTOMATIC_TIP_TRACKING_IN
               then Some (get_nozzle_map self) else None);
            chosen =
              (case location_arg of
                 None \<Rightarrow>
                   if nozzle_map \<noteq> None \<and> configuration (the nozzle_map) \<noteq> FULL
                      \<and> starting_tip self \<noteq> None then
                     Inl (CommandPreconditionViolated
                            ''Automatic tip tracking is not available when using a partial pipette nozzle configuration and InstrumentContext.starting_tip. Switch to a full configuration or set starting_tip to None.'')
                   else if \<not> is_tip_tracking_available self then
                     Inl (CommandPreconditionViolated
                            ''Automatic tip tracking is not available for the current pipette nozzle configuration. We suggest switching to a configuration that supports automatic tip tracking or specifying the exact tip to pick up.'')
                   else
                     (case next_available_tip self (starting_tip self) (tip_racks self) active
                             nozzle_map of
                        Inl e \<Rightarrow> Inl e
                      | Inr (rack, well) \<Rightarrow> Inr (rack, well, None))
               | Some (Arg_Well well) \<Rightarrow> Inr (parent well, well, None)
               | Some (Arg_Labware labware) \<Rightarrow>
                   (case next_available_tip self None [labware] active nozzle_map of
                      Inl e \<Rightarrow> Inl e
                    | Inr (rack, well) \<Rightarrow> Inr (rack, well, None))
               | Some (Arg_Location loc) \<Rightarrow>
                   (case parent_labware_and_well loc of
                      (_, Some maybe_well) \<Rightarrow> Inr (parent maybe_well, maybe_well, Some loc)
                    | (Some maybe_tip_rack, None) \<Rightarrow>
                        (case next_available_tip self None [maybe_tip_rack] active nozzle_map of
                           Inl e \<Rightarrow> Inl e
                         | Inr (rack, well) \<Rightarrow> Inr (rack, well, None))
                    | (None, None) \<Rightarrow>
                        Inl (TypeError ''location should refer to a Labware or Well location''))
               | Some Arg_Other \<Rightarrow>
                   Inl (TypeError ''location should be an instance of Location, Labware or Well''))
        in case chosen of
             Inl e \<Rightarrow> Inl e
           | Inr (rack, well, move_to_location) \<Rightarrow>
               Inr \<lparr>tip_rack = rack,
                    location = (case move_to_location of None \<Rightarrow> top self well | Some l \<Rightarrow> l),
                    well_core = well,
                    presses = presses_arg,
                    increment = increment_arg,
                    prep_after =
                      (case prep_after_arg of
                         Some b \<Rightarrow> b
                       | None \<Rightarrow> \<not> version_less (api_version self) PREP_AFTER_ADDED_IN)\<rparr>))"

text \<open>The helper checks of \<^verbatim>\<open>configure_nozzle_layout\<close>; \<open>Some e\<close> is the exception raised.\<close>

definition raise_if_has_end_or_front_right_or_back_left ::
  "string option \<Rightarrow> string option \<Rightarrow> string option \<Rightarrow> error option" where
  "raise_if_has_end_or_front_right_or_back_left end_nozzle front_right_arg back_left_arg =
    (if truthy end_nozzle \<or> truthy front_right_arg \<or> truthy back_left_arg then
       Some (ValueError ''Parameters end, front_right and back_left cannot be used with this nozzle configuration.'')
     else None)"

definition check_valid_start_nozzle :: "string option \<Rightarrow> error + string" where
  "check_valid_start_nozzle start =
    (case start of
       None \<Rightarrow> Inl (ValueError ''Cannot configure a nozzle layout without a starting nozzle.'')
     | Some s \<Rightarrow>
         if s \<notin> set ALLOWED_PRIMARY_NOZZLES then
           Inl (ValueError ''Starting nozzle specified is not one of the allowed primary nozzles.'')
         else Inr s)"

text \<open>
  \<^verbatim>\<open>_check_valid_end_nozzle\<close>. \<^verbatim>\<open>start[0] in end\<close> and \<^verbatim>\<open>"A" in end\<close> ask whether
  a one-character string occurs in \<^verbatim>\<open>end\<close>; \<^verbatim>\<open>start[0]\<close> of an empty string raises.
\<close>

definition check_valid_end_nozzle :: "string \<Rightarrow> string option \<Rightarrow> error + string" where
  "check_valid_end_nozzle start end_nozzle =
    (case end_nozzle of
       None \<Rightarrow> Inl (ValueError ''Partial column configurations require the end parameter.'')
     | Some e \<Rightarrow>
         (case start of
            [] \<Rightarrow> Inl IndexError
          | start0 # _ \<Rightarrow>
              if start0 \<in> set e then
                Inl (ValueError ''The start and end parameters of a partial column configuration cannot be in the same row.'')
              else if start = ''H1'' \<or> start = ''H12'' then
                (if CHR ''A'' \<in> set e then
                   Inl (ValueError ''A partial column configuration with this start cannot have its end parameter be in row A.'')
                 else Inr e)
              else if start = ''A1'' \<or> start = ''A12'' then
                (if CHR ''H'' \<in> set e then
                   Inl (ValueError ''A partial column configuration with this start cannot have its end parameter be in row H.'')
                 else Inr e)
              else Inr e))"

definition raise_if_no_front_right_or_back_left_for_quadrant ::
  "string option \<Rightarrow> string option \<Rightarrow> error option" where
  "raise_if_no_front_right_or_back_left_for_quadrant front_right_arg back_left_arg =
    (if front_right_arg = None \<and> back_left_arg = None then
       Some (ValueError ''Cannot configure a QUADRANT layout without a front right or back left nozzle.'')
     else None)"

definition raise_if_has_end_nozzle_for_quadrant :: "string option \<Rightarrow> error option" where
  "raise_if_has_end_nozzle_for_quadrant end_nozzle =
    (if end_nozzle \<noteq> None then
       Some (ValueError ''Parameter end is not supported for QUADRANT configuration.'')
     else None)"

definition raise_if_has_front_right_or_back_left_for_partial_column ::
  "string option \<Rightarrow> string option \<Rightarrow> error option" where
  "raise_if_has_front_right_or_back_left_for_partial_column front_right_arg back_left_arg =
    (if truthy front_right_arg \<or> truthy back_left_arg then
       Some (ValueError ''Parameters front_right and back_left cannot be used with the PARTIAL_COLUMN configuration.'')
     else None)"

definition raise_if_configuration_not_supported_by_pipette ::
  "InstrumentContext \<Rightarrow> NozzleLayout \<Rightarrow> error option" where
  "raise_if_configuration_not_supported_by_pipette self style =
    (if style = Layout_COLUMN \<or> style = Layout_ROW then
       (if channels self \<noteq> 96 then
          Some (ValueError ''configuration is only supported on 96-Channel pipettes.'')
        else None)
     else if style = Layout_PARTIAL_COLUMN then
       (if channels self \<noteq> 8 then
          Some (ValueError ''Partial column configuration is only supported on 8-Channel pipettes.'')
        else None)
     else None)"

text \<open>What \<^verbatim>\<open>configure_nozzle_layout\<close> hands to the core, and the new tip-rack list.\<close>

record CoreConfigureNozzleLayout =
  style_arg :: NozzleLayout
  primary_nozzle_arg :: "string option"
  front_right_nozzle_arg :: "string option"
  back_left_nozzle_arg :: "string option"
  new_tip_racks :: "string list"

text \<open>Sequencing of a check that may raise with the rest of the function.\<close>

definition checked :: "error option \<Rightarrow> (error + 'a) \<Rightarrow> error + 'a" where
  "checked c rest = (case c of Some e \<Rightarrow> Inl e | None \<Rightarrow> rest)"

text \<open>
  \<^verbatim>\<open>InstrumentContext.configure_nozzle_layout\<close> up to its call of the core. The
  decorator \<^verbatim>\<open>requires_version(2, 16)\<close> refuses an older API version first.
  The inner function is the \<^verbatim>\<open>match\<close> statement: it yields the validated start and the
  resolved front-right and back-left nozzles.
\<close>

definition resolve_nozzles ::
  "InstrumentContext \<Rightarrow> NozzleLayout \<Rightarrow> string option \<Rightarrow> string option \<Rightarrow> string option
    \<Rightarrow> string option \<Rightarrow> error + (string option \<times> string option \<times> string option)" where
  "resolve_nozzles self style start end_nozzle front_right_arg back_left_arg =
    (case style of
       Layout_SINGLE \<Rightarrow>
         (case check_valid_start_nozzle start of
            Inl e \<Rightarrow> Inl e
          | Inr validated_start \<Rightarrow>
              checked (raise_if_has_end_or_front_right_or_back_left end_nozzle front_right_arg
                         back_left_arg)
                (Inr (Some validated_start, front_right_arg, back_left_arg)))
     | Layout_COLUMN \<Rightarrow>
         checked (raise_if_configuration_not_supported_by_pipette self style)
           (case check_valid_start_nozzle start of
              Inl e \<Rightarrow> Inl e
            | Inr validated_start \<Rightarrow>
                checked (raise_if_has_end_or_front_right_or_back_left end_nozzle front_right_arg
                           back_left_arg)
                  (Inr (Some validated_start, front_right_arg, back_left_arg)))
     | Layout_ROW \<Rightarrow>
         checked (raise_if_configuration_not_supported_by_pipette self style)
           (case check_valid_start_nozzle start of
              Inl e \<Rightarrow> Inl e
            | Inr validated_start \<Rightarrow>
                checked (raise_if_has_end_or_front_right_or_back_left end_nozzle front_right_arg
                           back_left_arg)
                  (Inr (Some validated_start, front_right_arg, back_left_arg)))
     | Layout_PARTIAL_COLUMN \<Rightarrow>
         checked (raise_if_configuration_not_supported_by_pipette self style)
           (case check_valid_start_nozzle start of
              Inl e \<Rightarrow> Inl e
            | Inr validated_start \<Rightarrow>
                (case check_valid_end_nozzle validated_start end_nozzle of
                   Inl e \<Rightarrow> Inl e
                 | Inr validated_end \<Rightarrow>
                     checked (raise_if_has_front_right_or_back_left_for_partial_column
                                front_right_arg back_left_arg)
                       (if validated_start = ''H1'' \<or> validated_start = ''H12'' then
                          Inr (Some validated_start, Some validated_start, Some validated_end)
                        else if start = Some ''A1'' \<or> start = Some ''A12'' then
                          Inr (Some validated_start, Some validated_end, Some validated_start)
                        else Inr (Some validated_start, front_right_arg, back_left_arg))))
     | Layout_QUADRANT \<Rightarrow>
         (case check_valid_start_nozzle start of
            Inl e \<Rightarrow> Inl e
          | Inr validated_start \<Rightarrow>
              checked (raise_if_has_end_nozzle_for_quadrant end_nozzle)
                (checked (raise_if_no_front_right_or_back_left_for_quadrant front_right_arg
                            back_left_arg)
                   (if front_right_arg = None then
                      Inr (Some validated_start, Some validated_start, back_left_arg)
                    else if back_left_arg = None then
                      Inr (Some validated_start, front_right_arg, Some validated_start)
                    else Inr (Some validated_start, front_right_arg, back_left_arg))))
     | Layout_ALL \<Rightarrow> Inr (start, front_right_arg, back_left_arg))"

definition configure_nozzle_layout ::
  "InstrumentContext \<Rightarrow> NozzleLayout \<Rightarrow> string option \<Rightarrow> string option \<Rightarrow> string option
    \<Rightarrow> string option \<Rightarrow> string list option \<Rightarrow> error + CoreConfigureNozzleLayout" where
  "configure_nozzle_layout self style start end_nozzle front_right_arg back_left_arg
      tip_racks_arg =
    (if version_less (api_version self) (2, 16) then Inl (APIVersionError ''configure_nozzle_layout'')
     else if style \<in> set [Layout_QUADRANT] then
       Inl (UnsupportedAPIError ''Nozzle layout configuration of this style is currently unsupported.'')
     else if version_less (api_version self)
               PARTIAL_NOZZLE_CONFIGURATION_SINGLE_ROW_PARTIAL_COLUMN_ADDED_IN
             \<and> style \<notin> set [Layout_COLUMN, Layout_ALL] then
       Inl (APIVersionError ''Nozzle layout configuration of this style'')
     else
       (case resolve_nozzles self style start end_nozzle front_right_arg back_left_arg of
          Inl e \<Rightarrow> Inl e
        | Inr (validated_start, front_right_resolved, back_left_resolved) \<Rightarrow>
            Inr \<lparr>style_arg = style,
                 primary_nozzle_arg = validated_start,
                 front_right_nozzle_arg = front_right_resolved,
                 back_left_nozzle_arg = back_left_resolved,
                 new_tip_racks = (case tip_racks_arg of None \<Rightarrow> [] | Some l \<Rightarrow> l)\<rparr>))"

section \<open>Concrete configurations\<close>

text \<open>
  A state view, a nozzle map, a Flex whose sensors read a given status and whose calls
  never raise, a movement handler that reaches the well, and the parameters of a pick-up,
  on which the theorems below are instantiated.
\<close>

definition example_geometry :: TipGeometry where
  "example_geometry = \<lparr>length_tip = 58, diameter_tip = 5, volume_tip = 200\<rparr>"

definition example_map :: "NozzleConfigurationType \<Rightarrow> string \<Rightarrow> string \<Rightarrow> int \<Rightarrow> NozzleMap" where
  "example_map cfg bl fr n =
    \<lparr>configuration = cfg, starting_nozzle = bl, back_left = bl, front_right = fr, tip_count = n\<rparr>"

definition example_view :: "int \<Rightarrow> NozzleMap \<Rightarrow> TipGeometry option \<Rightarrow> StateView" where
  "example_view ch nm tip =
    \<lparr>get_attached_tip = (\<lambda>_. tip),
     convert_pick_up_tip_well_location = (\<lambda>w. w),
     get_channels = (\<lambda>_. ch),
     get_nozzle_configuration = (\<lambda>_. nm),
     get_mount = (\<lambda>_. LEFT),
     get_serial_number = (\<lambda>_. ''P1KSV3320230721''),
     get_nominal_tip_geometry = (\<lambda>_ _ _. Inr example_geometry),
     get_definition = (\<lambda>_. Inr ''opentrons_flex_96_tiprack_200ul''),
     get_calibrated_tip_length = (\<lambda>_ _ nominal_fallback. nominal_fallback),
     compute_tips_to_mark_as_used = (\<lambda>_ w _. [w]),
     validate_tip_state = (\<lambda>_ _. None),
     use_virtual_pipettes = False\<rparr>"

definition example_hardware :: "TipPresenceStatus \<Rightarrow> HardwareControlAPI" where
  "example_hardware s =
    \<lparr>is_ot3 = True, sensed_tip_presence = (\<lambda>_ _. s), raises = (\<lambda>_. None)\<rparr>"

definition example_movement :: MovementHandler where
  "example_movement = \<lparr>move_to_well = (\<lambda>_ _ _ _. SuccessData (10, 20, 30) StateUpdate_new)\<rparr>"

definition example_params :: PickUpTipParams where
  "example_params =
    \<lparr>pipetteId = ''p1'', labwareId = ''rack'', wellName = ''A1'',
     wellLocation = (''top'', 0, 0, 0)\<rparr>"

definition example_well :: "string \<Rightarrow> Well" where
  "example_well n = \<lparr>parent = ''rack'', well_name = n\<rparr>"

definition example_context :: "APIVersion \<Rightarrow> int \<Rightarrow> NozzleMap \<Rightarrow> Well option \<Rightarrow> InstrumentContext" where
  "example_context v ch nm st =
    \<lparr>api_version = v, channels = ch, active_channels = tip_count nm, get_nozzle_map = nm,
     is_tip_tracking_available = True, starting_tip = st, tip_racks = [''rack''],
     next_available_tip =
       (\<lambda>s racks n m. case s of Some w \<Rightarrow> Inr (parent w, w) | None \<Rightarrow> Inr (''rack'', example_well ''A1'')),
     top = (\<lambda>w. \<lparr>point = (0, 0, 0), parent_labware_and_well = (Some (parent w), Some w)\<rparr>)\<rparr>"

section \<open>Auxiliary facts\<close>

lemma reduce_new: "reduce StateUpdate_new u = u"
  by (cases u) (simp add: reduce_def later_def StateUpdate_new_def split: option.splits)

lemma fst_and_then:
  "fst (and_then m f) = fst m @ (case snd m of Inl e \<Rightarrow> [] | Inr v \<Rightarrow> fst (f v))"
  by (cases m) (auto simp: and_then_def split: sum.splits prod.splits)

lemma snd_and_then:
  "snd (and_then m f) = (case snd m of Inl e \<Rightarrow> Inl e | Inr v \<Rightarrow> snd (f v))"
  by (cases m) (auto simp: and_then_def split: sum.splits prod.splits)

lemma and_then_pure_Inr: "and_then (pure_step (Inr v)) f = f v"
  by (cases "f v") (simp add: and_then_def pure_step_def)

lemma and_then_pure_Inl: "and_then (pure_step (Inl e)) f = ([], Inl e)"
  by (simp add: and_then_def pure_step_def)

lemma and_then_Inr: "and_then (t, Inr v) f = (t @ fst (f v), snd (f v))"
  by (cases "f v") (simp add: and_then_def)

lemma and_then_Inl: "and_then (t, Inl e) f = (t, Inl e)"
  by (simp add: and_then_def)

lemma hw_do_ok: "raises hw c = None \<Longrightarrow> hw_do hw c = ([c], Inr ())"
  by (simp add: hw_do_def)

lemma corner_lookup_ending:
  "dict_get2 PRIMARY_NOZZLE_TO_ENDING_NOZZLE_MAP p s =
     (if p \<notin> {''A1'', ''H1'', ''A12'', ''H12''} then Inl (KeyError p)
      else if s \<notin> {''COLUMN'', ''ROW''} then Inl (KeyError s)
      else Inr (the (map_of (the (map_of PRIMARY_NOZZLE_TO_ENDING_NOZZLE_MAP p)) s)))"
  by (simp add: dict_get2_def dict_get_def PRIMARY_NOZZLE_TO_ENDING_NOZZLE_MAP_def)

lemma corner_lookup_back_left:
  "dict_get2 PRIMARY_NOZZLE_TO_BACK_LEFT_NOZZLE_MAP p s =
     (if p \<notin> {''A1'', ''H1'', ''A12'', ''H12''} then Inl (KeyError p)
      else if s \<notin> {''COLUMN'', ''ROW''} then Inl (KeyError s)
      else Inr (the (map_of (the (map_of PRIMARY_NOZZLE_TO_BACK_LEFT_NOZZLE_MAP p)) s)))"
  by (simp add: dict_get2_def dict_get_def PRIMARY_NOZZLE_TO_BACK_LEFT_NOZZLE_MAP_def)

lemma py_int_column:
  assumes "1 \<le> col" "col \<le> 12"
  shows "py_int (drop 1 (nozzle_name row col)) = Inr (int col)"
proof -
  from assms have "col = 1 \<or> col = 2 \<or> col = 3 \<or> col = 4 \<or> col = 5 \<or> col = 6
      \<or> col = 7 \<or> col = 8 \<or> col = 9 \<or> col = 10 \<or> col = 11 \<or> col = 12"
    by presburger
  then show ?thesis
    by (elim disjE) (simp_all add: py_int_def nozzle_name_def digit_char_def is_digit_def)
qed

lemma left_side_column:
  "1 \<le> col \<Longrightarrow> col \<le> 12 \<Longrightarrow> tip_on_left_side_96 (nozzle_name row col) = Inr (col = 1)"
  using py_int_column [of col row] by (simp add: tip_on_left_side_96_def)

lemma right_side_column:
  "1 \<le> col \<Longrightarrow> col \<le> 12 \<Longrightarrow> tip_on_right_side_96 (nozzle_name row col) = Inr (col = 12)"
  using py_int_column [of col row] by (simp add: tip_on_right_side_96_def)

lemma verify_present_sensed_absent:
  "is_ot3 hw \<Longrightarrow> sensed_tip_presence hw (get_hw_mount sv pid) follow = ABSENT \<Longrightarrow>
   verify_tip_presence hw sv pid PRESENT follow =
     ([Verify_tip_presence (get_hw_mount sv pid) PRESENT follow], Inl TipNotAttachedError)"
  by (simp add: verify_tip_presence_def failed_tip_state_check_def Let_def)

lemma handler_pick_up_tip_absent:
  assumes "get_nominal_tip_geometry sv pid lid w = Inr nominal"
    and "get_definition sv lid = Inr defn"
    and "raises hw (Tip_pickup_moves (get_hw_mount sv pid)) = None"
    and "is_ot3 hw"
    and "get_tip_presence_config sv pid = Inr (True, follow)"
    and "sensed_tip_presence hw (get_hw_mount sv pid) follow = ABSENT"
  shows "HardwareTipHandler_pick_up_tip hw sv pid lid w True =
     ([Tip_pickup_moves (get_hw_mount sv pid),
       Verify_tip_presence (get_hw_mount sv pid) PRESENT follow],
      Inl (PickUpTipTipNotAttachedError
            \<lparr>length_tip =
               get_calibrated_tip_length sv (get_serial_number sv pid) defn (length_tip nominal),
             diameter_tip = diameter_tip nominal, volume_tip = volume_tip nominal\<rparr>))"
  using assms
  by (simp add: HardwareTipHandler_pick_up_tip_def Let_def and_then_pure_Inr hw_do_ok
        and_then_Inr and_then_Inl verify_present_sensed_absent)

lemma cache_tip_ok:
  "\<forall>c. raises hw c = None \<Longrightarrow>
   cache_tip hw sv pid g =
     ([Cache_tip (get_hw_mount sv pid) (length_tip g),
       Set_current_tiprack_diameter (get_hw_mount sv pid) (diameter_tip g),
       Set_working_volume (get_hw_mount sv pid) (volume_tip g)], Inr ())"
  by (simp add: cache_tip_def Let_def hw_do_ok and_then_Inr)

lemma verify_present_passes:
  assumes "\<not> is_ot3 hw \<or> sensed_tip_presence hw (get_hw_mount sv pid) follow = PRESENT"
  shows "verify_tip_presence hw sv pid PRESENT follow =
         (if is_ot3 hw then [Verify_tip_presence (get_hw_mount sv pid) PRESENT follow] else [],
          Inr ())"
  using assms by (auto simp: verify_tip_presence_def failed_tip_state_check_def Let_def)

lemma handler_success:
  assumes g: "get_nominal_tip_geometry sv pid lid w = Inr nominal"
    and d: "get_definition sv lid = Inr defn"
    and nr: "\<forall>c. raises hw c = None"
    and c: "get_tip_presence_config sv pid = Inr (supported, follow)"
    and v: "\<not> supported \<or> \<not> is_ot3 hw \<or> sensed_tip_presence hw (get_hw_mount sv pid) follow = PRESENT"
  shows "HardwareTipHandler_pick_up_tip hw sv pid lid w True =
     (Tip_pickup_moves (get_hw_mount sv pid) #
      (if supported \<and> is_ot3 hw then [Verify_tip_presence (get_hw_mount sv pid) PRESENT follow] else []) @
      [Cache_tip (get_hw_mount sv pid) (get_calibrated_tip_length sv (get_serial_number sv pid) defn (length_tip nominal)),
       Set_current_tiprack_diameter (get_hw_mount sv pid) (diameter_tip nominal),
       Set_working_volume (get_hw_mount sv pid) (volume_tip nominal),
       Prepare_for_aspirate (get_hw_mount sv pid)],
      Inr \<lparr>length_tip = get_calibrated_tip_length sv (get_serial_number sv pid) defn (length_tip nominal),
           diameter_tip = diameter_tip nominal, volume_tip = volume_tip nominal\<rparr>)"
proof (cases supported)
  case True
  with v have "\<not> is_ot3 hw \<or> sensed_tip_presence hw (get_hw_mount sv pid) follow = PRESENT"
    by simp
  note p = verify_present_passes [OF this]
  show ?thesis
    using g d c nr True
    by (simp add: HardwareTipHandler_pick_up_tip_def Let_def and_then_pure_Inr hw_do_ok
          and_then_Inr p cache_tip_ok [OF nr])
next
  case False
  show ?thesis
    using g d c nr False
    by (simp add: HardwareTipHandler_pick_up_tip_def Let_def and_then_pure_Inr hw_do_ok
          and_then_Inr cache_tip_ok [OF nr])
qed

lemma remove_tip_trace:
  "set (fst (remove_tip hw sv pid)) \<subseteq> {Remove_tip (get_hw_mount sv pid), Set_current_tiprack_diameter (get_hw_mount sv pid) 0}
   \<and> Remove_tip (get_hw_mount sv pid) \<in> set (fst (remove_tip hw sv pid))"
  by (auto simp: remove_tip_def Let_def fst_and_then hw_do_def split: sum.splits option.splits)





section \<open>The pick-up-tip command when no tip is sensed\<close>

text \<open>
  Claim C1. Whenever the pick-up-tip command runs on the hardware tip handler, the move to
  the well succeeds, the tip geometry is resolved, the pick-up motion completes, sensing
  is supported on a Flex and the sensor reads ABSENT, the command does not raise: it
  returns the defined error \<open>TipPhysicallyMissingError\<close> with two state updates. The
  update for the genuine case is the update of the move with the consumed wells marked as
  used and the fluid set to unknown, its tip state untouched; the update for the false
  positive marks the same wells as used, sets the fluid to empty with a clean tip and
  commits the tip with the geometry that was resolved before the sensor was read
  (calibrated length, nominal diameter and volume). The hardware has seen the pick-up
  motion and the verification only: no tip was cached.
\<close>

theorem pick_up_tip_absent_returns_defined_error:
  assumes "move_to_well movement (pipetteId params) (labwareId params) (wellName params)
             (convert_pick_up_tip_well_location sv (wellLocation params)) = SuccessData pos mu"
    and "get_nominal_tip_geometry sv (pipetteId params) (labwareId params) (wellName params)
           = Inr nominal"
    and "get_definition sv (labwareId params) = Inr defn"
    and "raises hw (Tip_pickup_moves (get_hw_mount sv (pipetteId params))) = None"
    and "is_ot3 hw"
    and "get_tip_presence_config sv (pipetteId params) = Inr (True, follow)"
    and "sensed_tip_presence hw (get_hw_mount sv (pipetteId params)) follow = ABSENT"
  shows "execute sv (HardwareTipHandler hw) movement params =
     ([Tip_pickup_moves (get_hw_mount sv (pipetteId params)),
       Verify_tip_presence (get_hw_mount sv (pipetteId params)) PRESENT follow],
      Inr (DefinedErrorData TipPhysicallyMissingError
            (mu\<lparr>tips_used := Some (labwareId params,
                    compute_tips_to_mark_as_used sv (labwareId params) (wellName params)
                      (get_nozzle_configuration sv (pipetteId params))),
                 pipette_aspirated_fluid := Some (PipetteUnknownFluid (pipetteId params))\<rparr>)
            (mu\<lparr>pipette_tip_state := Some (pipetteId params, Some
                   \<lparr>length_tip =
                      get_calibrated_tip_length sv (get_serial_number sv (pipetteId params))
                        defn (length_tip nominal),
                    diameter_tip = diameter_tip nominal, volume_tip = volume_tip nominal\<rparr>),
                 pipette_aspirated_fluid := Some (PipetteEmptyFluid (pipetteId params) True),
                 tips_used := Some (labwareId params,
                    compute_tips_to_mark_as_used sv (labwareId params) (wellName params)
                      (get_nozzle_configuration sv (pipetteId params)))\<rparr>)))"
  using assms(1) handler_pick_up_tip_absent [OF assms(2-7)]
  by (simp add: execute_def Let_def TipHandler_pick_up_tip_def reduce_new
        mark_tips_as_used_def set_fluid_empty_def set_fluid_unknown_def
        update_pipette_tip_state_def)

theorem pick_up_tip_absent_returns_defined_error_witness:
  "execute (example_view 8 (example_map FULL ''A1'' ''H1'' 8) None)
     (HardwareTipHandler (example_hardware ABSENT)) example_movement example_params =
     ([Tip_pickup_moves LEFT, Verify_tip_presence LEFT PRESENT None],
      Inr (DefinedErrorData TipPhysicallyMissingError
            (StateUpdate_new\<lparr>tips_used := Some (''rack'', [''A1'']),
               pipette_aspirated_fluid := Some (PipetteUnknownFluid ''p1'')\<rparr>)
            (StateUpdate_new\<lparr>pipette_tip_state := Some (''p1'', Some example_geometry),
               pipette_aspirated_fluid := Some (PipetteEmptyFluid ''p1'' True),
               tips_used := Some (''rack'', [''A1''])\<rparr>)))"
proof -
  let ?sv = "example_view 8 (example_map FULL ''A1'' ''H1'' 8) None"
  let ?hw = "example_hardware ABSENT"
  have h1: "move_to_well example_movement (pipetteId example_params) (labwareId example_params)
              (wellName example_params)
              (convert_pick_up_tip_well_location ?sv (wellLocation example_params))
            = SuccessData (10, 20, 30) StateUpdate_new"
    by (simp add: example_movement_def)
  have h2: "get_nominal_tip_geometry ?sv (pipetteId example_params) (labwareId example_params)
              (wellName example_params) = Inr example_geometry"
    by (simp add: example_view_def)
  have h3: "get_definition ?sv (labwareId example_params) = Inr ''opentrons_flex_96_tiprack_200ul''"
    by (simp add: example_view_def)
  have h4: "raises ?hw (Tip_pickup_moves (get_hw_mount ?sv (pipetteId example_params))) = None"
    by (simp add: example_hardware_def)
  have h5: "is_ot3 ?hw"
    by (simp add: example_hardware_def)
  have h6: "get_tip_presence_config ?sv (pipetteId example_params) = Inr (True, None)"
    by (simp add: get_tip_presence_config_def example_view_def example_map_def
          supported_partial_nozzle_minimum_def)
  have h7: "sensed_tip_presence ?hw (get_hw_mount ?sv (pipetteId example_params)) None = ABSENT"
    by (simp add: example_hardware_def)
  show ?thesis
    using pick_up_tip_absent_returns_defined_error [OF h1 h2 h3 h4 h5 h6 h7]
    by (simp add: example_view_def example_params_def example_map_def example_geometry_def
          get_hw_mount_def)
qed

section \<open>Channel and style checks of the nozzle layout resolver\<close>

text \<open>
  Claim C3. The resolver is meant to refuse the style ROW on an 8-channel pipette and the
  style PARTIAL_COLUMN on a 96-channel pipette with \<open>CommandParameterLimitViolated\<close>.
  The second comparison of the source is against the string \<^verbatim>\<open>PARTIAL_COLUM\<close>, so on a
  96-channel pipette the style \<^verbatim>\<open>PARTIAL_COLUMN\<close> passes the check: with the primary
  nozzle A1 and no other nozzle the call ends in a \<open>KeyError\<close>, and with no primary
  nozzle it returns a layout. The ROW check on 8 channels does fire.
\<close>

theorem partial_column_on_96_channels_not_refused:
  "available_for_nozzle_layout 96 ''PARTIAL_COLUMN'' (Some ''A1'') None None
     = Inl (KeyError ''PARTIAL_COLUMN'')
   \<and> available_for_nozzle_layout 96 ''PARTIAL_COLUMN'' None None None
     = Inr [(''primary_nozzle'', ''A1'')]
   \<and> available_for_nozzle_layout 8 ''ROW'' (Some ''A1'') None None
     = Inl (CommandParameterLimitViolated ''RowNozzleLayout'' ''A1'')"
  by (simp add: available_for_nozzle_layout_def truthy_def str_opt_def corner_lookup_ending)

section \<open>Which tip sensor is followed on a 96-channel pipette\<close>

text \<open>
  Claim C5. On a 96-channel pipette whose nozzle configuration is not FULL and supports
  presence sensing (not SINGLE, at least 4 tips), with the back-left nozzle in column
  \<open>c1\<close> and the front-right nozzle in column \<open>c2\<close>: if \<open>c1 = 1\<close> and \<open>c2 = 12\<close> no
  single sensor is followed; if only \<open>c1 = 1\<close> the primary sensor is followed; otherwise
  the secondary sensor is followed.
\<close>

theorem follow_singular_sensor_96:
  assumes "get_channels sv pid = 96"
    and "configuration (get_nozzle_configuration sv pid) \<noteq> FULL"
    and "configuration (get_nozzle_configuration sv pid) \<noteq> SINGLE"
    and "tip_count (get_nozzle_configuration sv pid) \<ge> 4"
    and "back_left (get_nozzle_configuration sv pid) = nozzle_name r1 c1"
    and "front_right (get_nozzle_configuration sv pid) = nozzle_name r2 c2"
    and "1 \<le> c1" "c1 \<le> 12" "1 \<le> c2" "c2 \<le> 12"
  shows "get_tip_presence_config sv pid =
     Inr (True, if c1 = 1 \<and> c2 = 12 then None
                else if c1 = 1 then Some PRIMARY else Some SECONDARY)"
  using assms
  by (simp add: get_tip_presence_config_def Let_def left_side_column right_side_column
       unsupported_layout_types_96_def supported_partial_nozzle_minimum_def)

theorem follow_singular_sensor_96_witness:
  "get_tip_presence_config (example_view 96 (example_map COLUMN ''A3'' ''H3'' 8) None) ''p1''
     = Inr (True, Some SECONDARY)
   \<and> get_tip_presence_config (example_view 96 (example_map COLUMN ''A1'' ''H1'' 8) None) ''p1''
     = Inr (True, Some PRIMARY)
   \<and> get_tip_presence_config (example_view 96 (example_map ROW ''A1'' ''A12'' 12) None) ''p1''
     = Inr (True, None)"
proof -
  have n: "nozzle_name (CHR ''A'') 3 = ''A3''" "nozzle_name (CHR ''H'') 3 = ''H3''"
    "nozzle_name (CHR ''A'') 1 = ''A1''" "nozzle_name (CHR ''H'') 1 = ''H1''"
    "nozzle_name (CHR ''A'') 12 = ''A12''"
    "nozzle_name (CHR ''A'') (Suc 0) = ''A1''" "nozzle_name (CHR ''H'') (Suc 0) = ''H1''"
    by code_simp+
  have a: "get_tip_presence_config (example_view 96 (example_map COLUMN ''A3'' ''H3'' 8) None) ''p1''
     = Inr (True, Some SECONDARY)"
    using follow_singular_sensor_96
      [of "example_view 96 (example_map COLUMN ''A3'' ''H3'' 8) None" "''p1''"
          "CHR ''A''" 3 "CHR ''H''" 3]
    by (simp add: example_view_def example_map_def n)
  have b: "get_tip_presence_config (example_view 96 (example_map COLUMN ''A1'' ''H1'' 8) None) ''p1''
     = Inr (True, Some PRIMARY)"
    using follow_singular_sensor_96
      [of "example_view 96 (example_map COLUMN ''A1'' ''H1'' 8) None" "''p1''"
          "CHR ''A''" 1 "CHR ''H''" 1]
    by (simp add: example_view_def example_map_def n)
  have c: "get_tip_presence_config (example_view 96 (example_map ROW ''A1'' ''A12'' 12) None) ''p1''
     = Inr (True, None)"
    using follow_singular_sensor_96
      [of "example_view 96 (example_map ROW ''A1'' ''A12'' 12) None" "''p1''"
          "CHR ''A''" 1 "CHR ''A''" 12]
    by (simp add: example_view_def example_map_def n)
  from a b c show ?thesis by simp
qed

section \<open>Lookups of the resolver that raise \<open>KeyError\<close>\<close>

text \<open>
  Claim C10, as stated: every call on a multi-channel pipette with a primary nozzle and a
  style other than ALL, SINGLE, COLUMN or ROW ends in a \<open>KeyError\<close>. It does not
  when both the front-right and the back-left nozzle are given: the 8-channel call with
  the style PARTIAL_COLUMN, primary nozzle A1, front right D1 and back left A1 returns
  the three nozzles.
\<close>

theorem key_error_for_every_other_style_counterexample:
  "available_for_nozzle_layout 8 ''PARTIAL_COLUMN'' (Some ''A1'') (Some ''D1'') (Some ''A1'') =
     Inr [(''primary_nozzle'', ''A1''), (''front_right_nozzle'', ''D1''),
          (''back_left_nozzle'', ''A1'')]"
  by (simp add: available_for_nozzle_layout_def truthy_def)

text \<open>
  Claim C10, amended. A call on a multi-channel pipette with a primary nozzle ends in a
  \<open>KeyError\<close> whenever no earlier branch answers it and a lookup is reached with a
  key the maps do not have: the style is not ALL or SINGLE, not ROW on 8 channels, not
  the string \<^verbatim>\<open>PARTIAL_COLUM\<close> on 96 channels, the front-right and back-left nozzles are
  not both given and, for QUADRANT, neither is given, and either the style is not COLUMN
  or ROW or the primary nozzle is not one of A1, H1, A12, H12. The missing key is the
  primary nozzle if that is unknown, else the style.
\<close>

theorem key_error_when_lookup_reached:
  assumes ch: "nchannels \<noteq> 1" and p: "truthy primary"
    and st: "style \<notin> {''ALL'', ''SINGLE''}"
    and row: "\<not> (style = ''ROW'' \<and> nchannels = 8)"
    and pc: "\<not> (style = ''PARTIAL_COLUM'' \<and> nchannels = 96)"
    and both: "\<not> (truthy fr \<and> truthy bl)"
    and quad: "style = ''QUADRANT'' \<longrightarrow> \<not> truthy fr \<and> \<not> truthy bl"
    and key: "style \<notin> {''COLUMN'', ''ROW''} \<or> the primary \<notin> {''A1'', ''H1'', ''A12'', ''H12''}"
  shows "available_for_nozzle_layout nchannels style primary fr bl =
     Inl (KeyError (if the primary \<notin> {''A1'', ''H1'', ''A12'', ''H12''} then the primary
                    else style))"
proof -
  let ?k = "if the primary \<notin> {''A1'', ''H1'', ''A12'', ''H12''} then the primary else style"
  have e: "dict_get2 PRIMARY_NOZZLE_TO_ENDING_NOZZLE_MAP (the primary) style = Inl (KeyError ?k)"
    using key unfolding corner_lookup_ending by (simp only: if_not_P if_P split: if_splits) auto
  have b: "dict_get2 PRIMARY_NOZZLE_TO_BACK_LEFT_NOZZLE_MAP (the primary) style = Inl (KeyError ?k)"
    using key unfolding corner_lookup_back_left by (simp only: if_not_P if_P split: if_splits) auto
  have s1: "style \<noteq> ''ALL''" and s2: "style \<noteq> ''SINGLE''" using st by auto
  show ?thesis
    unfolding available_for_nozzle_layout_def e b
    using ch p s1 s2 row pc both quad
    by (cases "truthy fr"; cases "truthy bl") (simp_all only: if_False if_True simp_thms sum.case)
qed

theorem key_error_when_lookup_reached_witness:
  "available_for_nozzle_layout 96 ''QUADRANT'' (Some ''A1'') None None = Inl (KeyError ''QUADRANT'')
   \<and> available_for_nozzle_layout 8 ''PARTIAL_COLUMN'' (Some ''A1'') None None
       = Inl (KeyError ''PARTIAL_COLUMN'')
   \<and> available_for_nozzle_layout 96 ''COLUMN'' (Some ''B1'') None None = Inl (KeyError ''B1'')"
proof -
  have a: "available_for_nozzle_layout 96 ''QUADRANT'' (Some ''A1'') None None
             = Inl (KeyError ''QUADRANT'')"
    using key_error_when_lookup_reached [of 96 "Some ''A1''" "''QUADRANT''" None None]
    by (simp add: truthy_def)
  have b: "available_for_nozzle_layout 8 ''PARTIAL_COLUMN'' (Some ''A1'') None None
             = Inl (KeyError ''PARTIAL_COLUMN'')"
    using key_error_when_lookup_reached [of 8 "Some ''A1''" "''PARTIAL_COLUMN''" None None]
    by (simp add: truthy_def)
  have c: "available_for_nozzle_layout 96 ''COLUMN'' (Some ''B1'') None None = Inl (KeyError ''B1'')"
    using key_error_when_lookup_reached [of 96 "Some ''B1''" "''COLUMN''" None None]
    by (simp add: truthy_def)
  from a b c show ?thesis by simp
qed

section \<open>The pick-up-tip command when the tip is sensed or nothing is verified\<close>

text \<open>
  Claim C2. Whenever the pick-up-tip command runs on the hardware tip handler, the move to
  the well succeeds, the tip geometry is resolved (with non-negative dimensions), no
  hardware call raises, and the verification either senses PRESENT or does not take place
  (sensing unsupported for the nozzle configuration, or the robot is not a Flex), the
  command succeeds. Its one state update is the update of the move with the tip state set
  to the resolved geometry (calibrated length, nominal diameter and volume), the fluid set
  to empty with a clean tip, ready-to-aspirate set to true, and the tips marked as used
  that the state computes from the well and the active nozzle map. The hardware has seen
  the pick-up motion, the verification if it took place, the caching of the tip and the
  preparation for aspirate, in this order.
\<close>

theorem pick_up_tip_present_commits:
  assumes "move_to_well movement (pipetteId params) (labwareId params) (wellName params)
             (convert_pick_up_tip_well_location sv (wellLocation params)) = SuccessData pos mu"
    and "get_nominal_tip_geometry sv (pipetteId params) (labwareId params) (wellName params) = Inr nominal"
    and "get_definition sv (labwareId params) = Inr defn"
    and "\<forall>c. raises hw c = None"
    and "get_tip_presence_config sv (pipetteId params) = Inr (supported, follow)"
    and "\<not> supported \<or> \<not> is_ot3 hw
         \<or> sensed_tip_presence hw (get_hw_mount sv (pipetteId params)) follow = PRESENT"
    and "0 \<le> get_calibrated_tip_length sv (get_serial_number sv (pipetteId params)) defn (length_tip nominal)"
    and "0 \<le> diameter_tip nominal" and "0 \<le> volume_tip nominal"
  shows "execute sv (HardwareTipHandler hw) movement params =
     (Tip_pickup_moves (get_hw_mount sv (pipetteId params)) #
      (if supported \<and> is_ot3 hw
       then [Verify_tip_presence (get_hw_mount sv (pipetteId params)) PRESENT follow] else []) @
      [Cache_tip (get_hw_mount sv (pipetteId params))
         (get_calibrated_tip_length sv (get_serial_number sv (pipetteId params)) defn (length_tip nominal)),
       Set_current_tiprack_diameter (get_hw_mount sv (pipetteId params)) (diameter_tip nominal),
       Set_working_volume (get_hw_mount sv (pipetteId params)) (volume_tip nominal),
       Prepare_for_aspirate (get_hw_mount sv (pipetteId params))],
      Inr (SuccessData
            \<lparr>position = pos, tipVolume = volume_tip nominal,
             tipLength = get_calibrated_tip_length sv (get_serial_number sv (pipetteId params)) defn (length_tip nominal),
             tipDiameter = diameter_tip nominal\<rparr>
            (mu\<lparr>pipette_tip_state := Some (pipetteId params, Some
                   \<lparr>length_tip = get_calibrated_tip_length sv (get_serial_number sv (pipetteId params)) defn (length_tip nominal),
                    diameter_tip = diameter_tip nominal, volume_tip = volume_tip nominal\<rparr>),
                 tips_used := Some (labwareId params,
                    compute_tips_to_mark_as_used sv (labwareId params) (wellName params)
                      (get_nozzle_configuration sv (pipetteId params))),
                 pipette_aspirated_fluid := Some (PipetteEmptyFluid (pipetteId params) True),
                 ready_to_aspirate := Some (pipetteId params, True)\<rparr>)))"
  using assms(1,7,8,9) handler_success [OF assms(2-6)]
  by (simp add: execute_def Let_def TipHandler_pick_up_tip_def
        mark_tips_as_used_def set_fluid_empty_def set_pipette_ready_to_aspirate_def
        update_pipette_tip_state_def)

theorem pick_up_tip_present_commits_witness:
  "execute (example_view 8 (example_map FULL ''A1'' ''H1'' 8) None)
     (HardwareTipHandler (example_hardware PRESENT)) example_movement example_params =
     ([Tip_pickup_moves LEFT, Verify_tip_presence LEFT PRESENT None, Cache_tip LEFT 58,
       Set_current_tiprack_diameter LEFT 5, Set_working_volume LEFT 200, Prepare_for_aspirate LEFT],
      Inr (SuccessData
            \<lparr>position = (10, 20, 30), tipVolume = 200, tipLength = 58, tipDiameter = 5\<rparr>
            (StateUpdate_new\<lparr>pipette_tip_state := Some (''p1'', Some example_geometry),
               tips_used := Some (''rack'', [''A1'']),
               pipette_aspirated_fluid := Some (PipetteEmptyFluid ''p1'' True),
               ready_to_aspirate := Some (''p1'', True)\<rparr>)))"
proof -
  let ?sv = "example_view 8 (example_map FULL ''A1'' ''H1'' 8) None"
  let ?hw = "example_hardware PRESENT"
  have h1: "move_to_well example_movement (pipetteId example_params) (labwareId example_params)
              (wellName example_params)
              (convert_pick_up_tip_well_location ?sv (wellLocation example_params))
            = SuccessData (10, 20, 30) StateUpdate_new"
    by (simp add: example_movement_def)
  have h2: "get_nominal_tip_geometry ?sv (pipetteId example_params) (labwareId example_params)
              (wellName example_params) = Inr example_geometry"
    by (simp add: example_view_def)
  have h3: "get_definition ?sv (labwareId example_params) = Inr ''opentrons_flex_96_tiprack_200ul''"
    by (simp add: example_view_def)
  have h4: "\<forall>c. raises ?hw c = None"
    by (simp add: example_hardware_def)
  have h5: "get_tip_presence_config ?sv (pipetteId example_params) = Inr (True, None)"
    by (simp add: get_tip_presence_config_def example_view_def example_map_def
          supported_partial_nozzle_minimum_def)
  have h6: "\<not> True \<or> \<not> is_ot3 ?hw
      \<or> sensed_tip_presence ?hw (get_hw_mount ?sv (pipetteId example_params)) None = PRESENT"
    by (simp add: example_hardware_def)
  have h7: "0 \<le> get_calibrated_tip_length ?sv (get_serial_number ?sv (pipetteId example_params))
                  ''opentrons_flex_96_tiprack_200ul'' (length_tip example_geometry)"
    by (simp add: example_view_def example_geometry_def)
  have h8: "0 \<le> diameter_tip example_geometry" and h9: "0 \<le> volume_tip example_geometry"
    by (simp_all add: example_geometry_def)
  show ?thesis
    using pick_up_tip_present_commits [OF h1 h2 h3 h4 h5 h6 h7 h8 h9]
    by (simp add: example_view_def example_params_def example_map_def example_geometry_def
          get_hw_mount_def example_hardware_def)
qed

section \<open>When presence sensing is supported\<close>




section \<open>Resolution of a partial column on an 8-channel pipette\<close>

text \<open>
  Claim C6, as stated: \<^verbatim>\<open>configure_nozzle_layout\<close> with the style PARTIAL_COLUMN, start
  A1 and end D1 on an 8-channel pipette resolves to the front-right nozzle A1 and the
  back-left nozzle D1. The code resolves the other way round: for a start in row A the end
  becomes the front-right nozzle and the start the back-left nozzle.
\<close>

theorem partial_column_A1_D1_counterexample:
  "configure_nozzle_layout (example_context (2, 20) 8 (example_map FULL ''A1'' ''H1'' 8) None)
      Layout_PARTIAL_COLUMN (Some ''A1'') (Some ''D1'') None None None =
     Inr \<lparr>style_arg = Layout_PARTIAL_COLUMN, primary_nozzle_arg = Some ''A1'',
          front_right_nozzle_arg = Some ''D1'', back_left_nozzle_arg = Some ''A1'',
          new_tip_racks = []\<rparr>"
  by (simp add: configure_nozzle_layout_def resolve_nozzles_def example_context_def version_less_def
        PARTIAL_NOZZLE_CONFIGURATION_SINGLE_ROW_PARTIAL_COLUMN_ADDED_IN_def checked_def
        raise_if_configuration_not_supported_by_pipette_def check_valid_start_nozzle_def
        check_valid_end_nozzle_def ALLOWED_PRIMARY_NOZZLES_def
        raise_if_has_front_right_or_back_left_for_partial_column_def truthy_def)

text \<open>
  Claim C6, amended. On an 8-channel pipette at API version 2.20 or later,
  \<^verbatim>\<open>configure_nozzle_layout\<close> with the style PARTIAL_COLUMN, start A1 and end D1 passes
  every check of the function and calls the core with the primary nozzle A1, the
  front-right nozzle D1 and the back-left nozzle A1. What the core makes of these corners
  (whether it accepts the layout, and with which tip count) is outside this function and
  is not stated.
\<close>

theorem partial_column_A1_D1_resolution:
  assumes "channels self = 8"
    and "\<not> version_less (api_version self)
             PARTIAL_NOZZLE_CONFIGURATION_SINGLE_ROW_PARTIAL_COLUMN_ADDED_IN"
  shows "configure_nozzle_layout self Layout_PARTIAL_COLUMN (Some ''A1'') (Some ''D1'') None None
           racks =
     Inr \<lparr>style_arg = Layout_PARTIAL_COLUMN, primary_nozzle_arg = Some ''A1'',
          front_right_nozzle_arg = Some ''D1'', back_left_nozzle_arg = Some ''A1'',
          new_tip_racks = (case racks of None \<Rightarrow> [] | Some l \<Rightarrow> l)\<rparr>"
proof -
  have v: "\<not> version_less (api_version self) (2, 16)"
    using assms(2)
    by (auto simp: version_less_def
          PARTIAL_NOZZLE_CONFIGURATION_SINGLE_ROW_PARTIAL_COLUMN_ADDED_IN_def)
  show ?thesis
    using assms v
    by (simp add: configure_nozzle_layout_def resolve_nozzles_def checked_def
        raise_if_configuration_not_supported_by_pipette_def check_valid_start_nozzle_def
        check_valid_end_nozzle_def ALLOWED_PRIMARY_NOZZLES_def
        raise_if_has_front_right_or_back_left_for_partial_column_def truthy_def)
qed

theorem partial_column_A1_D1_resolution_witness:
  "configure_nozzle_layout (example_context (2, 21) 8 (example_map FULL ''A1'' ''H1'' 8) None)
      Layout_PARTIAL_COLUMN (Some ''A1'') (Some ''D1'') None None (Some [''rack'']) =
     Inr \<lparr>style_arg = Layout_PARTIAL_COLUMN, primary_nozzle_arg = Some ''A1'',
          front_right_nozzle_arg = Some ''D1'', back_left_nozzle_arg = Some ''A1'',
          new_tip_racks = [''rack'']\<rparr>"
proof -
  let ?c = "example_context (2, 21) 8 (example_map FULL ''A1'' ''H1'' 8) None"
  have h1: "channels ?c = 8"
    by (simp add: example_context_def)
  have h2: "\<not> version_less (api_version ?c)
               PARTIAL_NOZZLE_CONFIGURATION_SINGLE_ROW_PARTIAL_COLUMN_ADDED_IN"
    by (simp add: example_context_def version_less_def
          PARTIAL_NOZZLE_CONFIGURATION_SINGLE_ROW_PARTIAL_COLUMN_ADDED_IN_def)
  show ?thesis
    using partial_column_A1_D1_resolution [OF h1 h2, of "Some [''rack'']"] by simp
qed

section \<open>Dropping a tip that stays attached\<close>

text \<open>
  Claim C7. In \<^verbatim>\<open>HardwareTipHandler.drop_tip\<close> with tip presence not ignored, on a Flex
  whose sensors read PRESENT after a completed drop motion, the call raises
  \<open>TipAttachedError\<close> (an exception, not a returned value), and the hardware has seen
  the drop motion and the verification only. In every call of \<^verbatim>\<open>drop_tip\<close> the hardware
  is told to remove the tip exactly when the drop motion completed and the verification
  passed (sensed ABSENT) or did not take place (tip presence ignored, or not a Flex): when
  the error is raised the cached tip is left as it was.
\<close>

theorem drop_tip_present_raises_tip_attached:
  "(is_ot3 hw \<and> sensed_tip_presence hw (get_hw_mount sv pid) None = PRESENT
      \<and> raises hw (Tip_drop_moves (get_hw_mount sv pid) ignore_plunger scrape_type home_after) = None
     \<longrightarrow> HardwareTipHandler_drop_tip hw sv pid home_after True ignore_plunger scrape_type =
           ([Tip_drop_moves (get_hw_mount sv pid) ignore_plunger scrape_type home_after,
             Verify_tip_presence (get_hw_mount sv pid) ABSENT None],
            Inl TipAttachedError))
   \<and> (Remove_tip (get_hw_mount sv pid)
        \<in> set (fst (HardwareTipHandler_drop_tip hw sv pid home_after verify ignore_plunger scrape_type))
      \<longleftrightarrow> raises hw (Tip_drop_moves (get_hw_mount sv pid) ignore_plunger scrape_type home_after) = None
          \<and> (\<not> verify \<or> \<not> is_ot3 hw
              \<or> sensed_tip_presence hw (get_hw_mount sv pid) None = ABSENT))"
proof (intro conjI impI)
  assume a: "is_ot3 hw \<and> sensed_tip_presence hw (get_hw_mount sv pid) None = PRESENT
      \<and> raises hw (Tip_drop_moves (get_hw_mount sv pid) ignore_plunger scrape_type home_after) = None"
  then show "HardwareTipHandler_drop_tip hw sv pid home_after True ignore_plunger scrape_type =
           ([Tip_drop_moves (get_hw_mount sv pid) ignore_plunger scrape_type home_after,
             Verify_tip_presence (get_hw_mount sv pid) ABSENT None],
            Inl TipAttachedError)"
    by (simp add: HardwareTipHandler_drop_tip_def Let_def hw_do_ok and_then_Inr and_then_Inl
          verify_tip_presence_def failed_tip_state_check_def)
next
  let ?m = "get_hw_mount sv pid"
  let ?d = "Tip_drop_moves ?m ignore_plunger scrape_type home_after"
  show "Remove_tip ?m \<in> set (fst (HardwareTipHandler_drop_tip hw sv pid home_after verify ignore_plunger scrape_type))
      \<longleftrightarrow> raises hw ?d = None
          \<and> (\<not> verify \<or> \<not> is_ot3 hw \<or> sensed_tip_presence hw ?m None = ABSENT)"
  proof (cases "raises hw ?d")
    case (Some e)
    then show ?thesis
      by (simp add: HardwareTipHandler_drop_tip_def Let_def hw_do_def and_then_Inl)
  next
    case None
    show ?thesis
    proof (cases "\<not> verify \<or> \<not> is_ot3 hw \<or> sensed_tip_presence hw ?m None = ABSENT")
      case True
      then show ?thesis
        using None remove_tip_trace [of hw sv pid]
        by (auto simp: HardwareTipHandler_drop_tip_def Let_def hw_do_ok and_then_Inr
              verify_tip_presence_def failed_tip_state_check_def)
    next
      case False
      then show ?thesis
        using None
        by (auto simp: HardwareTipHandler_drop_tip_def Let_def hw_do_ok and_then_Inr and_then_Inl
              verify_tip_presence_def failed_tip_state_check_def)
    qed
  qed
qed

theorem drop_tip_present_raises_tip_attached_witness:
  "HardwareTipHandler_drop_tip (example_hardware PRESENT)
      (example_view 8 (example_map FULL ''A1'' ''H1'' 8) (Some example_geometry)) ''p1'' None True False ''NONE''
     = ([Tip_drop_moves LEFT False ''NONE'' None, Verify_tip_presence LEFT ABSENT None], Inl TipAttachedError)
   \<and> Remove_tip LEFT \<notin> set (fst (HardwareTipHandler_drop_tip (example_hardware PRESENT)
      (example_view 8 (example_map FULL ''A1'' ''H1'' 8) (Some example_geometry)) ''p1'' None True False ''NONE''))
   \<and> Remove_tip LEFT \<in> set (fst (HardwareTipHandler_drop_tip (example_hardware ABSENT)
      (example_view 8 (example_map FULL ''A1'' ''H1'' 8) (Some example_geometry)) ''p1'' None True False ''NONE''))"
  using drop_tip_present_raises_tip_attached [of "example_hardware PRESENT" "example_view 8 (example_map FULL ''A1'' ''H1'' 8) (Some example_geometry)"
               "''p1''" False "''NONE''" None True]
        drop_tip_present_raises_tip_attached [of "example_hardware ABSENT" "example_view 8 (example_map FULL ''A1'' ''H1'' 8) (Some example_geometry)"
               "''p1''" False "''NONE''" None True]
  by (simp add: example_hardware_def example_view_def get_hw_mount_def)

section \<open>Configuring the nozzle layout with a tip attached\<close>

text \<open>
  Claim C8. If the pipette has a tip attached, \<^verbatim>\<open>available_for_nozzle_layout\<close> of the
  hardware tip handler and of the virtual tip handler both raise
  \<open>CommandPreconditionViolated\<close> with the tips-attached message, whatever the style,
  the nozzles and the channel count: the layout is not resolved (not even the channel
  count is checked), so no layout is returned from which a nozzle map could be replaced.
\<close>

theorem nozzle_layout_refused_with_tip_attached:
  assumes "get_attached_tip sv pid \<noteq> None"
  shows "HardwareTipHandler_available_for_nozzle_layout sv pid style primary fr bl =
           Inl (CommandPreconditionViolated ''Cannot configure nozzle layout while it has tips attached.'')
       \<and> VirtualTipHandler_available_for_nozzle_layout sv pid style primary fr bl =
           Inl (CommandPreconditionViolated ''Cannot configure nozzle layout while it has tips attached.'')"
  using assms
  by (simp add: HardwareTipHandler_available_for_nozzle_layout_def
        VirtualTipHandler_available_for_nozzle_layout_def)

theorem nozzle_layout_refused_with_tip_attached_witness:
  "HardwareTipHandler_available_for_nozzle_layout (example_view 1 (example_map FULL ''A1'' ''A1'' 1) (Some example_geometry))
      ''p1'' ''SINGLE'' (Some ''A1'') None None =
     Inl (CommandPreconditionViolated ''Cannot configure nozzle layout while it has tips attached.'')
   \<and> VirtualTipHandler_available_for_nozzle_layout (example_view 1 (example_map FULL ''A1'' ''A1'' 1) (Some example_geometry))
      ''p1'' ''SINGLE'' (Some ''A1'') None None =
     Inl (CommandPreconditionViolated ''Cannot configure nozzle layout while it has tips attached.'')"
  using nozzle_layout_refused_with_tip_attached [of "example_view 1 (example_map FULL ''A1'' ''A1'' 1) (Some example_geometry)" "''p1''"
              "''SINGLE''" "Some ''A1''" None None]
  by (simp add: example_view_def)

section \<open>Automatic tip selection with a starting tip\<close>

text \<open>
  Claim C9, as stated: every \<^verbatim>\<open>pick_up_tip\<close> call with no location, a nozzle
  configuration that is not FULL and a starting tip raises a precondition violation. The
  nozzle map is consulted from API version 2.18 only, so at version 2.17 the same call
  goes on to select the starting tip; and at a version that has removed \<^verbatim>\<open>presses\<close>
  a call that passes it is refused earlier with \<open>UnsupportedAPIError\<close>.
\<close>

theorem starting_tip_guard_counterexample:
  "pick_up_tip (example_context (2, 17) 96 (example_map COLUMN ''A1'' ''H1'' 8) (Some (example_well ''A3'')))
      None None None None =
     Inr \<lparr>tip_rack = ''rack'',
          location = \<lparr>point = (0, 0, 0), parent_labware_and_well = (Some ''rack'', Some (example_well ''A3''))\<rparr>,
          well_core = example_well ''A3'', presses = None, increment = None, prep_after = True\<rparr>
   \<and> pick_up_tip (example_context (2, 18) 96 (example_map COLUMN ''A1'' ''H1'' 8) (Some (example_well ''A3'')))
      None (Some 3) None None = Inl (UnsupportedAPIError ''presses'')"
  by (simp add: pick_up_tip_def example_context_def example_map_def example_well_def version_less_def
        PRESSES_INCREMENT_REMOVED_IN_def PREP_AFTER_ADDED_IN_def PARTIAL_NOZZLE_CONFIGURATION_ADDED_IN_def
        PARTIAL_NOZZLE_CONFIGURATION_AUTOMATIC_TIP_TRACKING_IN_def)

text \<open>
  Claim C9, amended. At API version 2.18 or later, a \<^verbatim>\<open>pick_up_tip\<close> call with no
  location and neither \<^verbatim>\<open>presses\<close> nor \<^verbatim>\<open>increment\<close>, on a pipette whose nozzle
  configuration is not FULL and whose starting tip is set, raises
  \<open>CommandPreconditionViolated\<close>: no tip is selected and the core is not called.
\<close>

theorem starting_tip_with_partial_configuration_refused:
  assumes "\<not> version_less (api_version self) PARTIAL_NOZZLE_CONFIGURATION_AUTOMATIC_TIP_TRACKING_IN"
    and "configuration (get_nozzle_map self) \<noteq> FULL"
    and "starting_tip self \<noteq> None"
  shows "pick_up_tip self None None None prep_after_arg =
     Inl (CommandPreconditionViolated
            ''Automatic tip tracking is not available when using a partial pipette nozzle configuration and InstrumentContext.starting_tip. Switch to a full configuration or set starting_tip to None.'')"
proof -
  have "\<not> version_less (api_version self) PREP_AFTER_ADDED_IN"
    and "\<not> version_less (api_version self) (2, 0)"
    using assms(1)
    by (auto simp: version_less_def PREP_AFTER_ADDED_IN_def
          PARTIAL_NOZZLE_CONFIGURATION_AUTOMATIC_TIP_TRACKING_IN_def)
  then show ?thesis
    using assms by (simp add: pick_up_tip_def Let_def)
qed

theorem starting_tip_with_partial_configuration_refused_witness:
  "pick_up_tip (example_context (2, 18) 96 (example_map COLUMN ''A1'' ''H1'' 8) (Some (example_well ''A3'')))
      None None None None =
     Inl (CommandPreconditionViolated
            ''Automatic tip tracking is not available when using a partial pipette nozzle configuration and InstrumentContext.starting_tip. Switch to a full configuration or set starting_tip to None.'')"
  using starting_tip_with_partial_configuration_refused [of "example_context (2, 18) 96 (example_map COLUMN ''A1'' ''H1'' 8) (Some (example_well ''A3''))" None]
  by (simp add: example_context_def example_map_def version_less_def
        PARTIAL_NOZZLE_CONFIGURATION_AUTOMATIC_TIP_TRACKING_IN_def)

end
